theory Spec2Isabelle
  imports Complex_Main "HOL-Library.Multiset" "HOL-Library.Log_Nat"
begin

section \<open>JavaScript numbers, arrays and objects\<close>

text \<open>
  A JavaScript Number is a double. A finite double is modelled by the rational it
  denotes, so comparisons are exact, and every arithmetic operation rounds its exact
  result to the nearest double, ties to the even significand (53 bits, exponents of the
  grid from \<open>-1074\<close> on). A result beyond the largest double is \<^verbatim>\<open>Infinity\<close> in the
  source and is not modelled. Values that are not finite numbers (\<^verbatim>\<open>undefined\<close>,
  \<^verbatim>\<open>NaN\<close>, \<^verbatim>\<open>-Infinity\<close>) are written \<open>None\<close> where the code can produce them.
\<close>

type_synonym number = rat

definition pow2 :: "int \<Rightarrow> rat" where
  "pow2 e = (if 0 \<le> e then 2 ^ nat e else 1 / 2 ^ nat (- e))"

definition pow10 :: "int \<Rightarrow> rat" where
  "pow10 e = (if 0 \<le> e then 10 ^ nat e else 1 / 10 ^ nat (- e))"

text \<open>The binary exponent of a positive value: \<open>2^e \<le> x < 2^(e + 1)\<close>.\<close>

definition ilog2 :: "rat \<Rightarrow> int" where
  "ilog2 x =
     (let (p, q) = quotient_of x;
          e0 = bitlen p - bitlen q
      in if pow2 e0 \<le> x then e0 else e0 - 1)"

text \<open>The number of decimal digits of a positive integer.\<close>

function declen :: "int \<Rightarrow> int" where
  "declen n = (if 0 < n then declen (n div 10) + 1 else 0)"
  by pat_completeness auto
termination
  by (relation "measure nat") auto

text \<open>The decimal exponent of a positive value: \<open>10^e \<le> x < 10^(e + 1)\<close>.\<close>

definition ilog10 :: "rat \<Rightarrow> int" where
  "ilog10 x =
     (let (p, q) = quotient_of x;
          e0 = declen p - declen q
      in if pow10 e0 \<le> x then e0 else e0 - 1)"

text \<open>Rounding to the nearest integer, a half to the even one.\<close>

definition rne :: "rat \<Rightarrow> int" where
  "rne r =
     (let f = \<lfloor>r\<rfloor>; d = r - of_int f
      in if d < 1 / 2 then f
         else if 1 / 2 < d then f + 1
         else if even f then f else f + 1)"

text \<open>The double nearest to a value.\<close>

definition round_double :: "rat \<Rightarrow> number" where
  "round_double x =
     (if x = 0 then 0
      else let q = max (ilog2 \<bar>x\<bar> - 52) (- 1074)
           in of_int (rne (x / pow2 q)) * pow2 q)"

text \<open>The operators \<^verbatim>\<open>+\<close>, \<^verbatim>\<open>-\<close>, \<^verbatim>\<open>*\<close> and \<^verbatim>\<open>/\<close> on Numbers.\<close>

definition js_add :: "number \<Rightarrow> number \<Rightarrow> number" where
  "js_add a b = round_double (a + b)"

definition js_sub :: "number \<Rightarrow> number \<Rightarrow> number" where
  "js_sub a b = round_double (a - b)"

definition js_mul :: "number \<Rightarrow> number \<Rightarrow> number" where
  "js_mul a b = round_double (a * b)"

definition js_div :: "number \<Rightarrow> number \<Rightarrow> number" where
  "js_div a b = round_double (a / b)"

text \<open>
  The sum of a column of Numbers, as \<^verbatim>\<open>reduce((sum, x) => sum + x, 0)\<close> forms it: the
  terms are added from the first to the last, and every addition rounds.
\<close>

definition double_sum :: "number list \<Rightarrow> number" where
  "double_sum xs = foldl js_add 0 xs"

datatype jsval = JUndefined | JNull | JBool bool | JNum number | JStr string

text \<open>\<^verbatim>\<open>Boolean(v)\<close>, the predicate of \<^verbatim>\<open>filter(Boolean)\<close>.\<close>

fun truthy :: "jsval \<Rightarrow> bool" where
  "truthy JUndefined = False"
| "truthy JNull = False"
| "truthy (JBool b) = b"
| "truthy (JNum x) = (x \<noteq> 0)"
| "truthy (JStr s) = (s \<noteq> [])"

text \<open>\<^verbatim>\<open>typeof v === 'boolean'\<close>.\<close>

fun is_boolean :: "jsval \<Rightarrow> bool" where
  "is_boolean (JBool b) = True"
| "is_boolean v = False"

text \<open>\<^verbatim>\<open>x || 0\<close> on a numeric column that may be null or missing.\<close>

fun or0 :: "number option \<Rightarrow> number" where
  "or0 None = 0"
| "or0 (Some x) = x"

text \<open>
  \<^verbatim>\<open>Math.round\<close> gives the nearest integer, a half towards plus infinity; it is exact
  on the double it is given, and so is \<^verbatim>\<open>Math.floor\<close>.
\<close>

definition Math_round :: "number \<Rightarrow> number" where
  "Math_round x = of_int \<lfloor>x + 1 / 2\<rfloor>"

definition Math_floor :: "number \<Rightarrow> nat" where
  "Math_floor x = nat \<lfloor>x\<rfloor>"

text \<open>\<^verbatim>\<open>Math.max(...xs)\<close>; the empty call gives \<^verbatim>\<open>-Infinity\<close>, written \<open>None\<close>.\<close>

fun Math_max :: "number list \<Rightarrow> number option" where
  "Math_max [] = None"
| "Math_max (x # xs) = Some (fold max xs x)"

text \<open>
  \<^verbatim>\<open>parseInt\<close> of a value that is already a number reads the integer at the head of
  the string of the number. From the double of \<^verbatim>\<open>0.000001\<close> up to \<^verbatim>\<open>1e21\<close> the string is
  in decimal notation and the integer is the number cut at the point. Outside it is in
  exponent notation, \<^verbatim>\<open>d.ddde-7\<close>, and the integer is the leading digit of the shortest
  decimal that reads back as the number: the leading digit of the number itself, or the
  next one when that next digit alone already reads back as the number.
\<close>

definition parseInt :: "number \<Rightarrow> number" where
  "parseInt x =
     (if x = 0 then 0
      else
        (let a = \<bar>x\<bar>; sg = (if x < 0 then - 1 else 1) in
         if round_double (1 / 10 ^ 6) \<le> a \<and> a < 10 ^ 21 then sg * of_int \<lfloor>a\<rfloor>
         else
           (let n = ilog10 a; d = \<lfloor>a / pow10 n\<rfloor>
            in sg * of_int
                 (if round_double (of_int (d + 1) * pow10 n) = a
                  then (if d = 9 then 1 else d + 1)
                  else d))))"

text \<open>\<^verbatim>\<open>parseFloat\<close> reads the whole string of the number back.\<close>

definition parseFloat :: "number \<Rightarrow> number" where
  "parseFloat x = x"

text \<open>\<^verbatim>\<open>xs[i]\<close>: \<^verbatim>\<open>undefined\<close> out of range.\<close>

definition at_index :: "'a list \<Rightarrow> nat \<Rightarrow> 'a option" where
  "at_index xs i = (if i < length xs then Some (xs ! i) else None)"

text \<open>
  \<^verbatim>\<open>Array.prototype.slice(start, end)\<close>: a negative argument counts from the end of
  the array, and both are clamped to the array.
\<close>

definition slice :: "'a list \<Rightarrow> int \<Rightarrow> int \<Rightarrow> 'a list" where
  "slice xs start fin =
     (let len = int (length xs);
          k = (if start < 0 then max (len + start) 0 else min start len);
          final = (if fin < 0 then max (len + fin) 0 else min fin len)
      in take (nat (final - k)) (drop (nat k) xs))"

text \<open>\<^verbatim>\<open>xs.map((x, index) => f(x, index))\<close>.\<close>

definition map_index :: "('a \<Rightarrow> nat \<Rightarrow> 'b) \<Rightarrow> 'a list \<Rightarrow> 'b list" where
  "map_index f xs = map (\<lambda>(x, index). f x index) (zip xs [0..<length xs])"


text \<open>
  \<^verbatim>\<open>xs.sort((a, b) => b[key] - a[key])\<close>: the sort of the engine is stable, and so is
  the insertion sort \<open>sort_key\<close>. The difference of two doubles rounds to a double of
  the same sign, so the comparator orders the keys as their exact values do.
\<close>

definition sort_desc :: "('a \<Rightarrow> number) \<Rightarrow> 'a list \<Rightarrow> 'a list" where
  "sort_desc key xs = sort_key (\<lambda>x. - key x) xs"

text \<open>
  An object whose keys are integers written in decimal is an association list in
  insertion order. \<^verbatim>\<open>Object.entries\<close> lists the keys that are array indices
  (\<open>0 \<le> k < 2^32 - 1\<close>) first, in ascending order, then the others in insertion order.
\<close>

definition is_array_index :: "int \<Rightarrow> bool" where
  "is_array_index k = (0 \<le> k \<and> k < 2 ^ 32 - 1)"

definition Object_entries :: "(int \<times> 'v) list \<Rightarrow> (int \<times> 'v) list" where
  "Object_entries obj =
     sort_key fst (filter (\<lambda>e. is_array_index (fst e)) obj)
     @ filter (\<lambda>e. \<not> is_array_index (fst e)) obj"

text \<open>An object with string keys, as parsed from a JSON body; \<^verbatim>\<open>Object.values\<close>.\<close>

type_synonym jsobject = "(string \<times> jsval) list"

definition Object_values :: "jsobject \<Rightarrow> jsval list" where
  "Object_values obj = map snd obj"

text \<open>\<^verbatim>\<open>obj[key]\<close>: \<^verbatim>\<open>undefined\<close> when the key is absent.\<close>

definition get_prop :: "jsobject \<Rightarrow> string \<Rightarrow> jsval" where
  "get_prop obj key = (case map_of obj key of None \<Rightarrow> JUndefined | Some v \<Rightarrow> v)"

section \<open>The record store\<close>

datatype error = BadRequest string | NotFound string | Forbidden string | Database string

record users_row =
  u_tg_id :: int
  u_name :: string
  u_photo_url :: string
  u_is_premium :: bool
  u_status :: string

record dp_row =
  dp_tg_id :: int
  dp_date :: string
  dp_tasks :: jsobject
  dp_task_inputs :: jsobject
  dp_pages_read :: "number option"
  dp_distance_km :: "number option"
  dp_completed_count :: "number option"
  dp_submission_time :: string

text \<open>
  The two tables, and the operations (named as they are passed to \<^verbatim>\<open>executeQuery\<close>)
  whose query comes back with an error.
\<close>

record store =
  users :: "users_row list"
  daily_progress :: "dp_row list"
  failing :: "string list"

text \<open>\<^verbatim>\<open>BaseService.executeQuery\<close>: an error in the result is thrown as a database error.\<close>

definition executeQuery :: "store \<Rightarrow> string \<Rightarrow> 'a \<Rightarrow> error + 'a" where
  "executeQuery st operation result =
     (if operation \<in> set (failing st) then Inl (Database operation) else Inr result)"

text \<open>The clock: the ISO strings of now, of seven days ago and of thirty days ago.\<close>

record clock =
  now_iso :: string
  week_ago_iso :: string
  month_ago_iso :: string

text \<open>\<^verbatim>\<open>iso.split('T')[0]\<close>.\<close>

definition date_part :: "string \<Rightarrow> string" where
  "date_part s = takeWhile (\<lambda>c. c \<noteq> CHR ''T'') s"

text \<open>The order of the store on dates written YYYY-MM-DD.\<close>

fun date_le :: "string \<Rightarrow> string \<Rightarrow> bool" where
  "date_le [] ys = True"
| "date_le (x # xs) [] = False"
| "date_le (x # xs) (y # ys) =
     ((of_char x :: nat) < of_char y \<or> (x = y \<and> date_le xs ys))"

section \<open>Stats aggregator\<close>

record totals =
  total_points :: number
  total_pages :: number
  total_distance :: number

record all_time_stats = totals +
  total_days :: nat

definition getUserAllTimeStats :: "store \<Rightarrow> int \<Rightarrow> error + all_time_stats" where
  "getUserAllTimeStats st tgId =
     (case executeQuery st ''SELECT_USER_ALL_STATS''
             (filter (\<lambda>row. dp_tg_id row = tgId) (daily_progress st)) of
        Inl e \<Rightarrow> Inl e
      | Inr data \<Rightarrow> Inr
          \<lparr> total_points = foldl (\<lambda>sum day. js_add sum (or0 (dp_completed_count day))) 0 data,
            total_pages = foldl (\<lambda>sum day. js_add sum (or0 (dp_pages_read day))) 0 data,
            total_distance = foldl (\<lambda>sum day. js_add sum (or0 (dp_distance_km day))) 0 data,
            total_days = length data \<rparr>)"

section \<open>Achievements\<close>

record achievement =
  a_id :: string
  a_name :: string
  a_description :: string
  a_category :: string
  a_rarity :: string

section \<open>Leaderboard builder\<close>

record user_stats = totals +
  days_count :: number

record lb_user = user_stats +
  tg_id :: int
  name :: string
  photo_url :: string
  is_premium :: bool

record lb_entry = lb_user +
  rank :: nat
  score :: number
  achievements :: "achievement list"

text \<open>The options object; \<open>offset\<close> is \<open>None\<close> when the caller passes none.\<close>

record options =
  period :: string
  type :: string
  limit :: int
  offset :: "int option"

definition getDateFilter :: "clock \<Rightarrow> string \<Rightarrow> string option" where
  "getDateFilter clk p =
     (if p = ''daily'' then Some (date_part (now_iso clk))
      else if p = ''weekly'' then Some (date_part (week_ago_iso clk))
      else if p = ''monthly'' then Some (date_part (month_ago_iso clk))
      else None)"

text \<open>The body of the \<^verbatim>\<open>forEach\<close> that fills \<^verbatim>\<open>userStats\<close>.\<close>

definition add_progress :: "(int \<times> user_stats) list \<Rightarrow> dp_row \<Rightarrow> (int \<times> user_stats) list" where
  "add_progress userStats progress =
     (let userId = dp_tg_id progress;
          userStats1 =
            (if map_of userStats userId = None
             then userStats @ [(userId, \<lparr> total_points = 0, total_pages = 0,
                                         total_distance = 0, days_count = 0 \<rparr>)]
             else userStats)
      in map (\<lambda>(k, s). if k = userId
                then (k, s\<lparr> total_points := js_add (total_points s) (or0 (dp_completed_count progress)),
                            total_pages := js_add (total_pages s) (or0 (dp_pages_read progress)),
                            total_distance := js_add (total_distance s) (or0 (dp_distance_km progress)),
                            days_count := js_add (days_count s) 1 \<rparr>)
                else (k, s)) userStats1)"

text \<open>The selector that \<^verbatim>\<open>user[sortKey]\<close> reads.\<close>

definition sortKey :: "string \<Rightarrow> lb_user \<Rightarrow> number" where
  "sortKey t =
     (if t = ''reading'' then total_pages
      else if t = ''distance'' then total_distance
      else total_points)"

text \<open>The joined leaderboard, before it is sorted.\<close>

definition join_users :: "users_row list \<Rightarrow> (int \<times> user_stats) list \<Rightarrow> lb_user list" where
  "join_users us userStats =
     List.map_filter (\<lambda>(userId, stats).
        (case find (\<lambda>u. u_tg_id u = userId) us of
           None \<Rightarrow> None
         | Some user \<Rightarrow> Some
             \<lparr> total_points = total_points stats, total_pages = total_pages stats,
               total_distance = total_distance stats, days_count = days_count stats,
               tg_id = userId, name = u_name user, photo_url = u_photo_url user,
               is_premium = u_is_premium user \<rparr>))
       (Object_entries userStats)"

text \<open>The rows that the query of the progress table returns for a period.\<close>

definition select_leaderboard_data :: "string \<Rightarrow> clock \<Rightarrow> store \<Rightarrow> dp_row list" where
  "select_leaderboard_data p clk st =
     (if p \<noteq> ''all'' then
        (case getDateFilter clk p of
           Some dateFilter \<Rightarrow> filter (\<lambda>row. date_le dateFilter (dp_date row)) (daily_progress st)
         | None \<Rightarrow> daily_progress st)
      else daily_progress st)"

text \<open>The approved users among the given ids, as the query of the users table returns them.\<close>

definition select_leaderboard_users :: "int list \<Rightarrow> store \<Rightarrow> users_row list" where
  "select_leaderboard_users userIds st =
     filter (\<lambda>u. u_tg_id u \<in> set userIds \<and> u_status u = ''approved'') (users st)"

definition add_rank :: "string \<Rightarrow> lb_user \<Rightarrow> nat \<Rightarrow> lb_entry" where
  "add_rank t user index =
     \<lparr> total_points = total_points user, total_pages = total_pages user,
       total_distance = total_distance user, days_count = days_count user,
       tg_id = tg_id user, name = name user, photo_url = photo_url user,
       is_premium = is_premium user,
       rank = index + 1, score = sortKey t user, achievements = [] \<rparr>"

definition getLeaderboardData :: "options \<Rightarrow> clock \<Rightarrow> store \<Rightarrow> error + lb_entry list" where
  "getLeaderboardData opts clk st =
     (case executeQuery st ''SELECT_LEADERBOARD_DATA''
             (select_leaderboard_data (period opts) clk st) of
        Inl e \<Rightarrow> Inl e
      | Inr progressData \<Rightarrow>
          (let userIds = remdups (map dp_tg_id progressData) in
           case executeQuery st ''SELECT_LEADERBOARD_USERS''
                  (select_leaderboard_users userIds st) of
             Inl e \<Rightarrow> Inl e
           | Inr us \<Rightarrow>
               (let userStats = foldl add_progress [] progressData;
                    leaderboard = sort_desc (sortKey (type opts)) (join_users us userStats)
                in Inr (map_index (add_rank (type opts))
                          (slice leaderboard 0 (limit opts))))))"

text \<open>
  The array \<^verbatim>\<open>leaderboard\<close> of \<open>getLeaderboardData\<close> after the sort, before it is cut
  and ranked: the full sorted set.
\<close>

definition sorted_leaderboard :: "options \<Rightarrow> clock \<Rightarrow> store \<Rightarrow> lb_user list" where
  "sorted_leaderboard opts clk st =
     (let progressData = select_leaderboard_data (period opts) clk st;
          userIds = remdups (map dp_tg_id progressData);
          us = select_leaderboard_users userIds st;
          userStats = foldl add_progress [] progressData
      in sort_desc (sortKey (type opts)) (join_users us userStats))"

section \<open>Leaderboard controller\<close>

definition TIME_PERIODS :: "string list" where
  "TIME_PERIODS = [''daily'', ''weekly'', ''monthly'', ''all'']"

definition LEADERBOARD_TYPES :: "string list" where
  "LEADERBOARD_TYPES = [''overall'', ''reading'', ''distance'', ''consistency'']"

definition validateLeaderboardParams :: "string \<Rightarrow> string \<Rightarrow> int \<Rightarrow> int \<Rightarrow> error + unit" where
  "validateLeaderboardParams p t limitNum offsetNum =
     (if p \<notin> set TIME_PERIODS then Inl (BadRequest ''Invalid period'')
      else if t \<notin> set LEADERBOARD_TYPES then Inl (BadRequest ''Invalid type'')
      else if limitNum < 1 \<or> limitNum > 1000
        then Inl (BadRequest ''Limit must be between 1 and 1000'')
      else if offsetNum < 0 then Inl (BadRequest ''Offset must be >= 0'')
      else Inr ())"

text \<open>\<^verbatim>\<open>getTotalParticipants\<close> answers 0 when the leaderboard cannot be read.\<close>

definition getTotalParticipants :: "string \<Rightarrow> clock \<Rightarrow> store \<Rightarrow> nat" where
  "getTotalParticipants p clk st =
     (case getLeaderboardData
             \<lparr> period = p, type = ''overall'', limit = 10000, offset = None \<rparr> clk st of
        Inl e \<Rightarrow> 0
      | Inr allData \<Rightarrow> length allData)"

record participant =
  p_tg_id :: int
  p_name :: string
  p_rank :: nat
  p_score :: number
  p_total_points :: number
  p_total_pages :: number
  p_total_distance :: number
  p_photo_url :: string
  p_achievements :: "achievement list"
  p_is_premium :: bool

definition formatLeaderboardParticipant :: "lb_entry \<Rightarrow> nat \<Rightarrow> participant" where
  "formatLeaderboardParticipant e r =
     \<lparr> p_tg_id = tg_id e, p_name = name e, p_rank = r, p_score = score e,
       p_total_points = total_points e, p_total_pages = total_pages e,
       p_total_distance = total_distance e, p_photo_url = photo_url e,
       p_achievements = achievements e, p_is_premium = is_premium e \<rparr>"

record leaderboard_response =
  lr_total_participants :: nat
  lr_leaderboard :: "participant list"

text \<open>The controller, from the parsed \<^verbatim>\<open>limit\<close> and \<^verbatim>\<open>offset\<close> of the query on.\<close>

definition getLeaderboard ::
    "string \<Rightarrow> string \<Rightarrow> int \<Rightarrow> int \<Rightarrow> clock \<Rightarrow> store \<Rightarrow> error + leaderboard_response" where
  "getLeaderboard p t lmt off clk st =
     (case validateLeaderboardParams p t lmt off of
        Inl e \<Rightarrow> Inl e
      | Inr _ \<Rightarrow>
     (case getLeaderboardData \<lparr> period = p, type = t, limit = lmt, offset = Some off \<rparr> clk st of
        Inl e \<Rightarrow> Inl e
      | Inr leaderboardData \<Rightarrow>
          Inr \<lparr> lr_total_participants = getTotalParticipants p clk st,
                lr_leaderboard = map (\<lambda>e. formatLeaderboardParticipant e (rank e)) leaderboardData \<rparr>))"

section \<open>Position locator\<close>

text \<open>
  The query ends with \<^verbatim>\<open>.single()\<close>: unless exactly one row matches, its result carries
  an error, which \<open>executeQuery\<close> throws.
\<close>

definition getUserByTelegramId :: "store \<Rightarrow> int \<Rightarrow> error + users_row option" where
  "getUserByTelegramId st tgId =
     (case filter (\<lambda>u. u_tg_id u = tgId) (users st) of
        [user] \<Rightarrow> executeQuery st ''SELECT_USER'' (Some user)
      | _ \<Rightarrow> Inl (Database ''SELECT_USER''))"






section \<open>Distribution analyzer\<close>

record leaderboard_stats =
  total_participants :: nat
  average_points :: number
  median_points :: "number option"
  top_10_percent_threshold :: "number option"
  most_active_score :: "number option"
  completion_distribution :: "(string \<times> nat) list"

text \<open>The range that the \<^verbatim>\<open>if\<close> chain of the \<^verbatim>\<open>forEach\<close> selects for a score.\<close>

definition bucket :: "number \<Rightarrow> string" where
  "bucket s =
     (if s \<le> 10 then ''0-10''
      else if s \<le> 50 then ''11-50''
      else if s \<le> 100 then ''51-100''
      else if s \<le> 200 then ''101-200''
      else ''200+'')"

text \<open>\<^verbatim>\<open>completionRanges[key]++\<close>.\<close>

definition incr :: "string \<Rightarrow> (string \<times> nat) list \<Rightarrow> (string \<times> nat) list" where
  "incr key ranges = map (\<lambda>(k, v). if k = key then (k, v + 1) else (k, v)) ranges"

definition calculateLeaderboardStats :: "lb_entry list \<Rightarrow> leaderboard_stats" where
  "calculateLeaderboardStats leaderboardData =
     (if length leaderboardData = 0 then
        \<lparr> total_participants = 0, average_points = 0, median_points = Some 0,
          top_10_percent_threshold = Some 0, most_active_score = Some 0,
          completion_distribution = [] \<rparr>
      else
        (let scores = sort_desc (\<lambda>s. s) (map score leaderboardData);
             totalParticipants = length leaderboardData;
             averagePoints =
               js_div (foldl (\<lambda>sum s. js_add sum s) 0 scores) (of_nat totalParticipants);
             medianPoints = at_index scores (Math_floor (js_div (of_nat totalParticipants) 2));
             top10PercentThreshold =
               at_index scores
                 (Math_floor (js_mul (of_nat totalParticipants) (round_double (1 / 10))));
             mostActiveScore = Math_max scores;
             completionRanges =
               foldl (\<lambda>ranges s. incr (bucket s) ranges)
                 [(''0-10'', 0), (''11-50'', 0), (''51-100'', 0), (''101-200'', 0), (''200+'', 0)]
                 scores
         in \<lparr> total_participants = totalParticipants,
              average_points = js_div (Math_round (js_mul averagePoints 100)) 100,
              median_points = medianPoints,
              top_10_percent_threshold = top10PercentThreshold,
              most_active_score = mostActiveScore,
              completion_distribution = completionRanges \<rparr>))"

definition getLeaderboardStats :: "string \<Rightarrow> clock \<Rightarrow> store \<Rightarrow> error + leaderboard_stats" where
  "getLeaderboardStats p clk st =
     (case getLeaderboardData \<lparr> period = p, type = ''overall'', limit = 10000, offset = None \<rparr> clk st of
        Inl e \<Rightarrow> Inl e
      | Inr leaderboardData \<Rightarrow> Inr (calculateLeaderboardStats leaderboardData))"

section \<open>Achievement engine, tiered mode\<close>

definition point_master :: achievement where
  "point_master = \<lparr> a_id = ''point_master'', a_name = ''Point Master'',
     a_description = ''500+ total points'', a_category = ''points'', a_rarity = ''epic'' \<rparr>"

definition point_collector :: achievement where
  "point_collector = \<lparr> a_id = ''point_collector'', a_name = ''Point Collector'',
     a_description = ''100+ total points'', a_category = ''points'', a_rarity = ''rare'' \<rparr>"

definition library_master :: achievement where
  "library_master = \<lparr> a_id = ''library_master'', a_name = ''Library Master'',
     a_description = ''1000+ pages read'', a_category = ''reading'', a_rarity = ''legendary'' \<rparr>"

definition book_lover :: achievement where
  "book_lover = \<lparr> a_id = ''book_lover'', a_name = ''Book Lover'',
     a_description = ''500+ pages read'', a_category = ''reading'', a_rarity = ''epic'' \<rparr>"

definition bookworm :: achievement where
  "bookworm = \<lparr> a_id = ''bookworm'', a_name = ''Bookworm'',
     a_description = ''100+ pages read'', a_category = ''reading'', a_rarity = ''rare'' \<rparr>"

definition ultra_runner :: achievement where
  "ultra_runner = \<lparr> a_id = ''ultra_runner'', a_name = ''Ultra Runner'',
     a_description = ''500+ km covered'', a_category = ''fitness'', a_rarity = ''legendary'' \<rparr>"

definition marathon_hero :: achievement where
  "marathon_hero = \<lparr> a_id = ''marathon_hero'', a_name = ''Marathon Hero'',
     a_description = ''200+ km covered'', a_category = ''fitness'', a_rarity = ''epic'' \<rparr>"

definition runner :: achievement where
  "runner = \<lparr> a_id = ''runner'', a_name = ''Runner'',
     a_description = ''50+ km covered'', a_category = ''fitness'', a_rarity = ''rare'' \<rparr>"

definition centurion :: achievement where
  "centurion = \<lparr> a_id = ''centurion'', a_name = ''Centurion'',
     a_description = ''100+ days completed'', a_category = ''consistency'', a_rarity = ''legendary'' \<rparr>"

definition month_master :: achievement where
  "month_master = \<lparr> a_id = ''month_master'', a_name = ''Month Master'',
     a_description = ''30+ days completed'', a_category = ''consistency'', a_rarity = ''epic'' \<rparr>"

definition week_warrior :: achievement where
  "week_warrior = \<lparr> a_id = ''week_warrior'', a_name = ''Week Warrior'',
     a_description = ''7+ days completed'', a_category = ''consistency'', a_rarity = ''rare'' \<rparr>"

definition calculateUserAchievements :: "user_stats \<Rightarrow> achievement list" where
  "calculateUserAchievements stats =
     (if total_points stats \<ge> 500 then [point_master]
      else if total_points stats \<ge> 100 then [point_collector]
      else [])
     @ (if total_pages stats \<ge> 1000 then [library_master]
        else if total_pages stats \<ge> 500 then [book_lover]
        else if total_pages stats \<ge> 100 then [bookworm]
        else [])
     @ (if total_distance stats \<ge> 500 then [ultra_runner]
        else if total_distance stats \<ge> 200 then [marathon_hero]
        else if total_distance stats \<ge> 50 then [runner]
        else [])
     @ (if days_count stats \<ge> 100 then [centurion]
        else if days_count stats \<ge> 30 then [month_master]
        else if days_count stats \<ge> 7 then [week_warrior]
        else [])"

definition rarityScores :: "(string \<times> number) list" where
  "rarityScores = [(''common'', 10), (''rare'', 25), (''epic'', 50), (''legendary'', 100)]"

text \<open>\<^verbatim>\<open>rarityScores[rarity] || 10\<close>, summed by \<^verbatim>\<open>reduce\<close>.\<close>

definition calculateAchievementScore :: "achievement list \<Rightarrow> number" where
  "calculateAchievementScore as =
     foldl (\<lambda>total a. js_add total
              (case map_of rarityScores (a_rarity a) of
                 None \<Rightarrow> 10
               | Some v \<Rightarrow> if v = 0 then 10 else v)) 0 as"

section \<open>Achievement leaderboard\<close>

record achiever = lb_entry +
  achievement_count :: nat
  achievement_score :: number



text \<open>The object that the first \<^verbatim>\<open>map\<close> of the controller builds for a user.\<close>

definition with_achievements :: "lb_entry \<Rightarrow> achiever" where
  "with_achievements user =
     (let as = calculateUserAchievements
                 \<lparr> total_points = total_points user, total_pages = total_pages user,
                   total_distance = total_distance user, days_count = days_count user \<rparr>
      in \<lparr> total_points = total_points user, total_pages = total_pages user,
           total_distance = total_distance user, days_count = days_count user,
           tg_id = tg_id user, name = name user, photo_url = photo_url user,
           is_premium = is_premium user, rank = rank user, score = score user,
           achievements = as, achievement_count = length as,
           achievement_score = calculateAchievementScore as \<rparr>)"


section \<open>Submission path\<close>

text \<open>
  The body of a submission. \<^verbatim>\<open>tasks\<close> and \<^verbatim>\<open>task_inputs\<close> are \<open>None\<close> when the value
  sent is not an object; the two numeric fields are numbers.
\<close>

record submit_body =
  b_tg_id :: int
  b_tasks :: "jsobject option"
  b_task_inputs :: "jsobject option"
  b_pages_read :: number
  b_distance_km :: number
  b_date :: "string option"

definition TOTAL_DAILY_TASKS :: number where
  "TOTAL_DAILY_TASKS = 10"

definition MAX_PAGES_READ :: number where
  "MAX_PAGES_READ = 1000"

definition MAX_DISTANCE :: number where
  "MAX_DISTANCE = 100"

definition booleanTasks :: "string list" where
  "booleanTasks = [''1'', ''2'', ''3'', ''4'', ''6'', ''7'', ''8'', ''9'']"

definition validateSubmissionData ::
    "jsobject option \<Rightarrow> jsobject option \<Rightarrow> number \<Rightarrow> number \<Rightarrow> error + unit" where
  "validateSubmissionData tasks taskInputs pagesRead distanceKm =
     (case tasks of
        None \<Rightarrow> Inl (BadRequest ''Tasks must be an object'')
      | Some ts \<Rightarrow>
     (case find (\<lambda>taskId. get_prop ts taskId \<noteq> JUndefined \<and> \<not> is_boolean (get_prop ts taskId))
             booleanTasks of
        Some taskId \<Rightarrow> Inl (BadRequest (''Task '' @ taskId @ '' must be boolean''))
      | None \<Rightarrow>
     (case taskInputs of
        None \<Rightarrow> Inl (BadRequest ''Task inputs must be an object'')
      | Some _ \<Rightarrow>
          (let pages = parseInt pagesRead in
           if pages < 0 \<or> pages > MAX_PAGES_READ
           then Inl (BadRequest ''Pages read must be between 0 and 1000'')
           else
             (let distance = parseFloat distanceKm in
              if distance < 0 \<or> distance > MAX_DISTANCE
              then Inl (BadRequest ''Distance must be between 0 and 100 km'')
              else Inr ())))))"

text \<open>
  \<^verbatim>\<open>dailyProgressService.submitDailyProgress\<close>: the row is written over the row of the
  same user and date when there is one, and added otherwise.
\<close>

definition same_key :: "dp_row \<Rightarrow> dp_row \<Rightarrow> bool" where
  "same_key a b = (dp_tg_id a = dp_tg_id b \<and> dp_date a = dp_date b)"

definition upsert :: "dp_row \<Rightarrow> dp_row list \<Rightarrow> dp_row list" where
  "upsert row tbl =
     (case find (same_key row) tbl of
        None \<Rightarrow> tbl @ [row]
      | Some _ \<Rightarrow> map (\<lambda>r. if same_key row r then row else r) tbl)"

definition service_submitDailyProgress :: "dp_row \<Rightarrow> clock \<Rightarrow> store \<Rightarrow> error + dp_row \<times> store" where
  "service_submitDailyProgress progressData clk st =
     (let dataToInsert =
            \<lparr> dp_tg_id = dp_tg_id progressData,
              dp_date = (if dp_date progressData \<noteq> [] then dp_date progressData
                         else date_part (now_iso clk)),
              dp_tasks = dp_tasks progressData,
              dp_task_inputs = dp_task_inputs progressData,
              dp_pages_read = Some (or0 (dp_pages_read progressData)),
              dp_distance_km = Some (or0 (dp_distance_km progressData)),
              dp_completed_count = Some (or0 (dp_completed_count progressData)),
              dp_submission_time = now_iso clk \<rparr>
      in case executeQuery st ''UPSERT_DAILY_PROGRESS'' () of
           Inl e \<Rightarrow> Inl e
         | Inr _ \<Rightarrow>
             Inr (dataToInsert, st\<lparr> daily_progress := upsert dataToInsert (daily_progress st) \<rparr>))"

record unlocked =
  un_id :: string
  un_name :: string
  un_description :: string
  un_type :: string

definition first_day :: unlocked where
  "first_day = \<lparr> un_id = ''first_day'', un_name = ''First Step'',
     un_description = ''Complete your first day'', un_type = ''newcomer'' \<rparr>"

definition week_warrior_unlocked :: unlocked where
  "week_warrior_unlocked = \<lparr> un_id = ''week_warrior'', un_name = ''Week Warrior'',
     un_description = ''Complete 7 days'', un_type = ''consistent'' \<rparr>"

definition perfect_day :: unlocked where
  "perfect_day = \<lparr> un_id = ''perfect_day'', un_name = ''Perfect Day'',
     un_description = ''Complete all 10 tasks in a day'', un_type = ''perfectionist'' \<rparr>"

text \<open>The \<^verbatim>\<open>catch\<close> of the check turns every error into \<^verbatim>\<open>null\<close>.\<close>

definition checkForAchievements :: "store \<Rightarrow> int \<Rightarrow> dp_row \<Rightarrow> unlocked option" where
  "checkForAchievements st telegramId progress =
     (case getUserAllTimeStats st telegramId of
        Inl e \<Rightarrow> None
      | Inr allTimeStats \<Rightarrow>
          if total_days allTimeStats = 1 then Some first_day
          else if total_days allTimeStats = 7 then Some week_warrior_unlocked
          else if dp_completed_count progress = Some TOTAL_DAILY_TASKS then Some perfect_day
          else None)"

record today_data =
  completed :: number
  td_pages_read :: number
  td_distance_km :: number

record submission_response =
  message :: string
  sr_total_points :: number
  today :: today_data
  achievement_unlocked :: "unlocked option"
  submission_time :: string

text \<open>
  The controller, from the parsed \<^verbatim>\<open>tg_id\<close> on. It returns the response and the store
  after the save; every error it throws is handed to \<^verbatim>\<open>next\<close>, here \<open>Inl\<close>.
\<close>

definition submitDailyProgress ::
    "submit_body \<Rightarrow> clock \<Rightarrow> store \<Rightarrow> error + submission_response \<times> store" where
  "submitDailyProgress body clk st =
     (let telegramId = b_tg_id body in
      if telegramId \<le> 0 then Inl (BadRequest ''Invalid Telegram ID format'')
      else case getUserByTelegramId st telegramId of
        Inl e \<Rightarrow> Inl e
      | Inr None \<Rightarrow> Inl (NotFound ''User'')
      | Inr (Some user) \<Rightarrow>
          if u_status user \<noteq> ''approved'' then Inl (Forbidden ''User not approved yet'')
          else case validateSubmissionData (b_tasks body) (b_task_inputs body)
                      (b_pages_read body) (b_distance_km body) of
            Inl e \<Rightarrow> Inl e
          | Inr _ \<Rightarrow>
              (let tasks = (case b_tasks body of Some ts \<Rightarrow> ts | None \<Rightarrow> []);
                   task_inputs = (case b_task_inputs body of Some ti \<Rightarrow> ti | None \<Rightarrow> []);
                   targetDate = (case b_date body of
                                   Some d \<Rightarrow> if d \<noteq> [] then d else date_part (now_iso clk)
                                 | None \<Rightarrow> date_part (now_iso clk));
                   completedCount = of_nat (length (filter truthy (Object_values tasks)));
                   progressData =
                     \<lparr> dp_tg_id = telegramId, dp_date = targetDate, dp_tasks = tasks,
                       dp_task_inputs = task_inputs,
                       dp_pages_read = Some (parseInt (b_pages_read body)),
                       dp_distance_km = Some (parseFloat (b_distance_km body)),
                       dp_completed_count = Some completedCount,
                       dp_submission_time = now_iso clk \<rparr>
               in case service_submitDailyProgress progressData clk st of
                    Inl e \<Rightarrow> Inl e
                  | Inr (savedProgress, st1) \<Rightarrow>
                      (let totalPoints = completedCount;
                           todayData = \<lparr> completed = completedCount,
                                         td_pages_read = or0 (dp_pages_read progressData),
                                         td_distance_km = or0 (dp_distance_km progressData) \<rparr>;
                           achievementUnlocked = checkForAchievements st1 telegramId savedProgress
                       in Inr (\<lparr> message = ''Ma'' @ [CHR 0x27] @ ''lumotlar muvaffaqiyatli saqlandi'',
                                 sr_total_points = totalPoints,
                                 today = todayData,
                                 achievement_unlocked = achievementUnlocked,
                                 submission_time = dp_submission_time savedProgress \<rparr>, st1))))"

section \<open>Example data\<close>

definition day :: "int \<Rightarrow> string \<Rightarrow> number \<Rightarrow> dp_row" where
  "day u d c =
     \<lparr> dp_tg_id = u, dp_date = d, dp_tasks = [], dp_task_inputs = [],
       dp_pages_read = Some 0, dp_distance_km = Some 0, dp_completed_count = Some c,
       dp_submission_time = d \<rparr>"

definition member :: "int \<Rightarrow> string \<Rightarrow> users_row" where
  "member u n =
     \<lparr> u_tg_id = u, u_name = n, u_photo_url = [], u_is_premium = False,
       u_status = ''approved'' \<rparr>"

text \<open>User 1 has one day of 10 points; user 2 has three days and 5 points.\<close>

definition two_users :: store where
  "two_users =
     \<lparr> users = [member 1 ''A'', member 2 ''B''],
       daily_progress = [day 1 ''2024-01-01'' 10, day 2 ''2024-01-01'' 1,
                         day 2 ''2024-01-02'' 2, day 2 ''2024-01-03'' 2],
       failing = [] \<rparr>"

definition noon :: clock where
  "noon =
     \<lparr> now_iso = ''2024-01-03T12:00:00.000Z'', week_ago_iso = ''2023-12-27T12:00:00.000Z'',
       month_ago_iso = ''2023-12-04T12:00:00.000Z'' \<rparr>"

text \<open>A submission of user 3, who has no record yet, with eleven keys set to true.\<close>

definition eleven_tasks :: jsobject where
  "eleven_tasks =
     [(''1'', JBool True), (''2'', JBool True), (''3'', JBool True), (''4'', JBool True),
      (''5'', JBool True), (''6'', JBool True), (''7'', JBool True), (''8'', JBool True),
      (''9'', JBool True), (''10'', JBool True), (''11'', JBool True)]"

definition eleven_body :: submit_body where
  "eleven_body =
     \<lparr> b_tg_id = 3, b_tasks = Some eleven_tasks, b_task_inputs = Some [],
       b_pages_read = 0, b_distance_km = 0, b_date = None \<rparr>"

text \<open>A submission of user 3 with the ten tasks set to true.\<close>

definition ten_tasks :: jsobject where
  "ten_tasks =
     [(''1'', JBool True), (''2'', JBool True), (''3'', JBool True), (''4'', JBool True),
      (''5'', JBool True), (''6'', JBool True), (''7'', JBool True), (''8'', JBool True),
      (''9'', JBool True), (''10'', JBool True)]"

definition ten_body :: submit_body where
  "ten_body =
     \<lparr> b_tg_id = 3, b_tasks = Some ten_tasks, b_task_inputs = Some [],
       b_pages_read = 0, b_distance_km = 0, b_date = None \<rparr>"

definition three_users :: store where
  "three_users = two_users\<lparr> users := users two_users @ [member 3 ''C''] \<rparr>"

text \<open>The same store when the query of the all-time stats fails.\<close>

definition stats_down :: store where
  "stats_down = three_users\<lparr> failing := [''SELECT_USER_ALL_STATS''] \<rparr>"


text \<open>
  User 3 has one point and 1000 pages, users 1 and 2 have more points; one record of
  user 2 has no completed count.
\<close>

definition reader_store :: store where
  "reader_store =
     \<lparr> users = [member 1 ''A'', member 2 ''B'', member 3 ''C''],
       daily_progress =
         [day 1 ''2024-01-01'' 10, day 2 ''2024-01-01'' 9,
          (day 3 ''2024-01-01'' 1)\<lparr> dp_pages_read := Some 1000 \<rparr>,
          (day 2 ''2024-01-02'' 0)\<lparr> dp_completed_count := None,
                                      dp_distance_km := Some (5 / 2) \<rparr>],
       failing = [] \<rparr>"

text \<open>
  User 1 has two records, of 3 and 4 points, with the distances \<^verbatim>\<open>0.1\<close> and \<^verbatim>\<open>0.2\<close>; the
  second has no number of pages.
\<close>

definition tenths :: store where
  "tenths =
     \<lparr> users = [member 1 ''A''],
       daily_progress =
         [(day 1 ''2024-01-01'' 3)\<lparr> dp_distance_km := Some (round_double (1 / 10)) \<rparr>,
          (day 1 ''2024-01-02'' 4)\<lparr> dp_distance_km := Some (round_double (2 / 10)),
                                      dp_pages_read := None \<rparr>],
       failing = [] \<rparr>"



section \<open>Facts about doubles\<close>

lemma pow2_powi: "pow2 e = 2 powi e"
  by (simp add: pow2_def power_int_def power_one_over inverse_eq_divide)

lemma pow2_pos [simp]: "0 < pow2 e"
  by (simp add: pow2_powi zero_less_power_int)

lemma pow2_add: "pow2 (a + b) = pow2 a * pow2 b"
  by (simp add: pow2_powi power_int_add)

lemma pow2_diff: "pow2 (a - b) = pow2 a / pow2 b"
  by (simp add: pow2_powi power_int_diff)

lemma pow2_nat: "pow2 (int n) = 2 ^ n"
  by (simp add: pow2_def)

lemma pow2_mono: "a \<le> b \<Longrightarrow> pow2 a \<le> pow2 b"
  by (simp add: pow2_powi power_int_increasing)

lemma pow2_strict_mono: "a < b \<Longrightarrow> pow2 a < pow2 b"
  by (simp add: pow2_powi power_int_strict_increasing)

lemma pow2_less_cancel: "pow2 a < pow2 b \<Longrightarrow> a < b"
  using pow2_mono[of b a] by (cases "a < b") auto

lemma pow2_le_cancel: "pow2 a \<le> pow2 b \<Longrightarrow> a \<le> b"
  using pow2_strict_mono[of b a] by (cases "a \<le> b") auto

lemma pow2_int_mult: "0 \<le> e \<Longrightarrow> of_int k * pow2 e = of_int (k * 2 ^ nat e)"
  by (simp add: pow2_def)

lemma ilog2_bounds:
  assumes "0 < x"
  shows "pow2 (ilog2 x) \<le> x" and "x < pow2 (ilog2 x + 1)"
proof -
  obtain p q where pq: "quotient_of x = (p, q)" by (cases "quotient_of x")
  then have q: "0 < q" using quotient_of_denom_pos by blast
  from pq have x: "x = of_int p / of_int q" by (rule quotient_of_div)
  with assms q have p: "0 < p" by (simp add: zero_less_divide_iff)
  let ?a = "bitlen p" and ?b = "bitlen q"
  from bitlen_bounds[OF p] have pb: "2 ^ nat (?a - 1) \<le> p" "p < 2 ^ nat ?a" by simp_all
  from bitlen_bounds[OF q] have qb: "2 ^ nat (?b - 1) \<le> q" "q < 2 ^ nat ?b" by simp_all
  have a1: "1 \<le> ?a" using p bitlen_eq_zero_iff[of p] bitlen_nonneg[of p] by linarith
  have b1: "1 \<le> ?b" using q bitlen_eq_zero_iff[of q] bitlen_nonneg[of q] by linarith
  have pl: "pow2 (?a - 1) \<le> of_int p"
  proof -
    have "(of_int (2 ^ nat (?a - 1)) :: rat) \<le> of_int p" using pb(1) by (simp only: of_int_le_iff)
    with a1 show ?thesis by (simp add: pow2_def)
  qed
  have pu: "of_int p < pow2 ?a"
  proof -
    have "(of_int p :: rat) < of_int (2 ^ nat ?a)" using pb(2) by (simp only: of_int_less_iff)
    with a1 show ?thesis by (simp add: pow2_def)
  qed
  have ql: "pow2 (?b - 1) \<le> of_int q"
  proof -
    have "(of_int (2 ^ nat (?b - 1)) :: rat) \<le> of_int q" using qb(1) by (simp only: of_int_le_iff)
    with b1 show ?thesis by (simp add: pow2_def)
  qed
  have qu: "of_int q < pow2 ?b"
  proof -
    have "(of_int q :: rat) < of_int (2 ^ nat ?b)" using qb(2) by (simp only: of_int_less_iff)
    with b1 show ?thesis by (simp add: pow2_def)
  qed
  have qpos: "(0::rat) < of_int q" using q by simp
  have ppos: "(0::rat) < of_int p" using p by simp
  have up: "x < pow2 (?a - ?b + 1)"
  proof -
    have "x < pow2 ?a / of_int q"
      unfolding x using pu qpos by (simp add: divide_strict_right_mono)
    also have "\<dots> \<le> pow2 ?a / pow2 (?b - 1)"
      by (rule divide_left_mono) (use ql qpos in \<open>simp_all add: less_imp_le\<close>)
    also have "\<dots> = pow2 (?a - ?b + 1)"
      using pow2_diff[of ?a "?b - 1"] by (simp add: algebra_simps)
    finally show ?thesis .
  qed
  have lo: "pow2 (?a - ?b - 1) < x"
  proof -
    have "pow2 (?a - ?b - 1) = pow2 (?a - 1) / pow2 ?b"
      using pow2_diff[of "?a - 1" ?b] by (simp add: algebra_simps)
    also have "\<dots> < pow2 (?a - 1) / of_int q"
      using qu qpos by (simp add: divide_strict_left_mono)
    also have "\<dots> \<le> x"
      unfolding x using pl qpos by (simp add: divide_right_mono)
    finally show ?thesis .
  qed
  show "pow2 (ilog2 x) \<le> x"
    using lo by (auto simp add: ilog2_def pq Let_def)
  show "x < pow2 (ilog2 x + 1)"
    using up by (auto simp add: ilog2_def pq Let_def not_le)
qed

lemma ilog2_le: "0 < x \<Longrightarrow> x \<le> pow2 k \<Longrightarrow> ilog2 x \<le> k"
  using ilog2_bounds(1)[of x] pow2_le_cancel[of "ilog2 x" k] by linarith

lemma ilog2_ge: "0 < x \<Longrightarrow> pow2 k \<le> x \<Longrightarrow> k \<le> ilog2 x"
proof -
  assume "0 < x" "pow2 k \<le> x"
  with ilog2_bounds(2)[of x] have "pow2 k < pow2 (ilog2 x + 1)" by linarith
  then have "k < ilog2 x + 1" by (rule pow2_less_cancel)
  then show ?thesis by simp
qed

lemma rne_floor_or_succ: "rne r = \<lfloor>r\<rfloor> \<or> rne r = \<lfloor>r\<rfloor> + 1"
  by (simp add: rne_def Let_def)

lemma rne_of_int [simp]: "rne (of_int k) = k"
  by (simp add: rne_def)

lemma int_le_rne: "of_int k \<le> r \<Longrightarrow> k \<le> rne r"
  using rne_floor_or_succ[of r] le_floor_iff[of k r] by linarith

lemma rne_le_int: "r \<le> of_int k \<Longrightarrow> rne r \<le> k"
proof (cases "r = of_int \<lfloor>r\<rfloor>")
  case True
  assume "r \<le> of_int k"
  with True have "\<lfloor>r\<rfloor> \<le> k" by linarith
  moreover from True have "rne r = \<lfloor>r\<rfloor>" by (metis rne_of_int)
  ultimately show ?thesis by simp
next
  case False
  assume "r \<le> of_int k"
  have "of_int \<lfloor>r\<rfloor> \<le> r" by (rule of_int_floor_le)
  with False have "of_int \<lfloor>r\<rfloor> < r" by (auto simp add: less_le)
  with \<open>r \<le> of_int k\<close> have "(of_int \<lfloor>r\<rfloor> :: rat) < of_int k" by linarith
  then have "\<lfloor>r\<rfloor> < k" by (simp only: of_int_less_iff)
  with rne_floor_or_succ[of r] show ?thesis by linarith
qed

lemma rne_error: "\<bar>of_int (rne r) - r\<bar> \<le> 1 / 2"
proof -
  have a: "of_int \<lfloor>r\<rfloor> \<le> r" by (rule of_int_floor_le)
  have b: "r < of_int \<lfloor>r\<rfloor> + 1" using floor_correct[of r] by simp
  show ?thesis
    using a b by (auto simp add: rne_def Let_def abs_le_iff)
qed

lemma pow2_nonzero [simp]: "pow2 e \<noteq> 0"
  by (metis pow2_pos less_irrefl)

lemma abs_pow2 [simp]: "\<bar>pow2 e\<bar> = pow2 e"
  by (simp add: abs_of_pos)

text \<open>The exponent of the grid on which a value is rounded.\<close>

lemma round_double_grid:
  assumes "x \<noteq> 0"
  shows "round_double x =
           of_int (rne (x / pow2 (max (ilog2 \<bar>x\<bar> - 52) (- 1074))))
             * pow2 (max (ilog2 \<bar>x\<bar> - 52) (- 1074))"
  using assms by (simp add: round_double_def Let_def)

lemma round_double_0 [simp]: "round_double 0 = 0"
  by (simp add: round_double_def)

lemma round_double_error:
  assumes "\<bar>x\<bar> \<le> pow2 k" and "- 1022 \<le> k"
  shows "\<bar>round_double x - x\<bar> \<le> pow2 (k - 53)"
proof (cases "x = 0")
  case True
  then show ?thesis by (simp add: less_imp_le)
next
  case False
  let ?q = "max (ilog2 \<bar>x\<bar> - 52) (- 1074)"
  from False have pos: "0 < \<bar>x\<bar>" by simp
  from ilog2_le[OF pos assms(1)] assms(2) have q: "?q \<le> k - 52" by (auto simp add: max_def)
  have "\<bar>round_double x - x\<bar> = \<bar>of_int (rne (x / pow2 ?q)) - x / pow2 ?q\<bar> * pow2 ?q"
  proof -
    have "round_double x - x = (of_int (rne (x / pow2 ?q)) - x / pow2 ?q) * pow2 ?q"
      using pow2_pos[of ?q] by (simp add: round_double_grid[OF False] field_simps)
    then show ?thesis by (simp add: abs_mult)
  qed
  also have "\<dots> \<le> (1 / 2) * pow2 ?q"
    by (rule mult_right_mono[OF rne_error]) (simp add: less_imp_le)
  also have "\<dots> = pow2 (?q - 1)"
    using pow2_diff[of ?q 1] by (simp add: pow2_def)
  also have "\<dots> \<le> pow2 (k - 53)"
    using q by (intro pow2_mono) linarith
  finally show ?thesis .
qed

text \<open>
  A value \<open>k * 2^p\<close> with \<open>\<bar>k\<bar> < 2^53\<close> and \<open>p \<ge> -1074\<close> is a double. Rounding
  never crosses a double: it is the identity on doubles and monotone around them.
\<close>

lemma double_vs_grid:
  assumes k: "\<bar>k\<bar> < 2 ^ 53" and p: "- 1074 \<le> p" and x: "x \<noteq> 0"
  shows "(\<exists>j. of_int k * pow2 p = of_int j * pow2 (max (ilog2 \<bar>x\<bar> - 52) (- 1074)))
         \<or> \<bar>of_int k * pow2 p\<bar> < pow2 (ilog2 \<bar>x\<bar>)
            \<and> max (ilog2 \<bar>x\<bar> - 52) (- 1074) = ilog2 \<bar>x\<bar> - 52"
proof (cases "max (ilog2 \<bar>x\<bar> - 52) (- 1074) \<le> p")
  case True
  let ?q = "max (ilog2 \<bar>x\<bar> - 52) (- 1074)"
  from True have "pow2 p = of_int (2 ^ nat (p - ?q)) * pow2 ?q"
    using pow2_add[of "p - ?q" ?q] by (simp add: pow2_def)
  then have "of_int k * pow2 p = of_int (k * 2 ^ nat (p - ?q)) * pow2 ?q"
    by simp
  then show ?thesis by blast
next
  case False
  let ?e = "ilog2 \<bar>x\<bar>"
  from False p have q: "max (?e - 52) (- 1074) = ?e - 52" and pe: "p + 53 \<le> ?e" by simp_all
  have "\<bar>of_int k * pow2 p\<bar> = of_int \<bar>k\<bar> * pow2 p"
    by (simp add: abs_mult)
  also have "\<dots> < of_int (2 ^ 53) * pow2 p"
    using k by (intro mult_strict_right_mono) (simp_all only: of_int_less_iff pow2_pos)
  also have "\<dots> = pow2 (p + 53)"
    using pow2_add[of p 53] by (simp add: pow2_def)
  also have "\<dots> \<le> pow2 ?e"
    using pe by (rule pow2_mono)
  finally show ?thesis using q by simp
qed

lemma round_double_lower:
  assumes k: "\<bar>k\<bar> < 2 ^ 53" and p: "- 1074 \<le> p" and le: "of_int k * pow2 p \<le> x"
  shows "of_int k * pow2 p \<le> round_double x"
proof (cases "x = 0")
  case True
  with le show ?thesis by simp
next
  case False
  let ?e = "ilog2 \<bar>x\<bar>"
  let ?q = "max (?e - 52) (- 1074)"
  let ?y = "of_int k * pow2 p"
  from False have pos: "0 < \<bar>x\<bar>" by simp
  note rd = round_double_grid[OF False]
  from double_vs_grid[OF k p False] show ?thesis
  proof
    assume "\<exists>j. ?y = of_int j * pow2 ?q"
    then obtain j where j: "?y = of_int j * pow2 ?q" ..
    with le have "of_int j \<le> x / pow2 ?q"
      using pow2_pos[of ?q] by (simp add: pos_le_divide_eq)
    then have "j \<le> rne (x / pow2 ?q)" by (rule int_le_rne)
    then have "(of_int j :: rat) \<le> of_int (rne (x / pow2 ?q))" by (simp only: of_int_le_iff)
    then have "of_int j * pow2 ?q \<le> of_int (rne (x / pow2 ?q)) * pow2 ?q"
      by (rule mult_right_mono) (simp add: less_imp_le)
    with j rd show ?thesis by simp
  next
    assume a: "\<bar>?y\<bar> < pow2 ?e \<and> ?q = ?e - 52"
    with ilog2_bounds(1)[OF pos] have small: "\<bar>?y\<bar> < \<bar>x\<bar>" by linarith
    with le have xpos: "0 < x" by linarith
    with ilog2_bounds(1)[OF pos] have "pow2 ?e \<le> x" by simp
    moreover have "pow2 ?e = of_int (2 ^ 52) * pow2 ?q"
      using a pow2_add[of 52 "?e - 52"] by (simp add: pow2_def)
    ultimately have "of_int (2 ^ 52) \<le> x / pow2 ?q"
      using pow2_pos[of ?q] by (simp add: pos_le_divide_eq)
    then have "2 ^ 52 \<le> rne (x / pow2 ?q)" by (rule int_le_rne)
    then have "(of_int (2 ^ 52) :: rat) \<le> of_int (rne (x / pow2 ?q))" by (simp only: of_int_le_iff)
    then have "of_int (2 ^ 52) * pow2 ?q \<le> of_int (rne (x / pow2 ?q)) * pow2 ?q"
      by (rule mult_right_mono) (simp add: less_imp_le)
    with \<open>pow2 ?e = of_int (2 ^ 52) * pow2 ?q\<close> rd have "pow2 ?e \<le> round_double x" by simp
    with a show ?thesis by linarith
  qed
qed

lemma round_double_uminus: "round_double (- x) = - round_double x"
proof -
  have "rne (- r) = - rne r" for r
  proof (cases "r = of_int \<lfloor>r\<rfloor>")
    case True
    then obtain j where "r = of_int j" ..
    then show ?thesis by (simp flip: of_int_minus)
  next
    case False
    have a: "of_int \<lfloor>r\<rfloor> \<le> r" by (rule of_int_floor_le)
    have b: "r < of_int \<lfloor>r\<rfloor> + 1" using floor_correct[of r] by simp
    from False a have c: "of_int \<lfloor>r\<rfloor> < r" by (auto simp add: less_le)
    have f: "\<lfloor>- r\<rfloor> = - \<lfloor>r\<rfloor> - 1"
      using b c by (intro floor_unique) simp_all
    show ?thesis
      using b c by (auto simp add: rne_def Let_def f)
  qed
  then show ?thesis
    by (simp add: round_double_def Let_def)
qed

lemma round_double_upper:
  assumes k: "\<bar>k\<bar> < 2 ^ 53" and p: "- 1074 \<le> p" and le: "x \<le> of_int k * pow2 p"
  shows "round_double x \<le> of_int k * pow2 p"
proof -
  from k have "\<bar>- k\<bar> < 2 ^ 53" by simp
  moreover from le have "of_int (- k) * pow2 p \<le> - x" by simp
  ultimately have "of_int (- k) * pow2 p \<le> round_double (- x)"
    using p by (intro round_double_lower)
  then show ?thesis by (simp add: round_double_uminus)
qed

lemma round_double_exact:
  assumes "\<bar>k\<bar> < 2 ^ 53" and "- 1074 \<le> p"
  shows "round_double (of_int k * pow2 p) = of_int k * pow2 p"
  using round_double_lower[OF assms, of "of_int k * pow2 p"]
        round_double_upper[OF assms, of "of_int k * pow2 p"]
  by simp

lemma round_double_int:
  assumes "\<bar>m\<bar> \<le> 2 ^ 53"
  shows "round_double (of_int m) = of_int m"
proof (cases "\<bar>m\<bar> < 2 ^ 53")
  case True
  from round_double_exact[OF True, of 0] show ?thesis by (simp add: pow2_def)
next
  case False
  with assms have "\<bar>m\<bar> = 2 ^ 53" by simp
  then have "m = 2 ^ 52 * 2 \<or> m = - (2 ^ 52) * 2" by (auto simp add: abs_if split: if_splits)
  then have "\<exists>j. \<bar>j\<bar> < 2 ^ 53 \<and> (of_int m :: rat) = of_int j * pow2 1"
    by (auto simp add: pow2_def intro: exI[of _ "2 ^ 52"] exI[of _ "- (2 ^ 52)"])
  then obtain j where j: "\<bar>j\<bar> < 2 ^ 53" "(of_int m :: rat) = of_int j * pow2 1" by blast
  from round_double_exact[OF j(1), of 1] j(2) show ?thesis by simp
qed





text \<open>Sums of doubles: exact on natural numbers up to \<open>2^53\<close>, close to the sum otherwise.\<close>

lemma double_sum_snoc: "double_sum (xs @ [x]) = js_add (double_sum xs) x"
  by (simp add: double_sum_def)

lemma sum_list_Nats: "\<forall>x\<in>set xs. x \<in> \<nat> \<Longrightarrow> sum_list xs \<in> (\<nat> :: rat set)"
  by (induction xs) (simp_all add: Nats_add)


lemma Nats_nonneg: "x \<in> \<nat> \<Longrightarrow> 0 \<le> (x :: rat)"
  by (auto simp add: Nats_def)

lemma double_sum_naturals:
  assumes "\<forall>x\<in>set xs. x \<in> \<nat>" and "sum_list xs \<le> 2 ^ 53"
  shows "double_sum xs = sum_list xs"
  using assms
proof (induction xs rule: rev_induct)
  case Nil
  show ?case by (simp add: double_sum_def)
next
  case (snoc x xs)
  from snoc.prems(1) have x: "x \<in> \<nat>" and xs: "\<forall>y\<in>set xs. y \<in> \<nat>"
    by simp_all
  from x have "0 \<le> x" by (rule Nats_nonneg)
  with snoc.prems(2) have "sum_list xs \<le> 2 ^ 53" by simp
  with snoc.IH xs have ih: "double_sum xs = sum_list xs" by simp
  from snoc.prems(1) have "sum_list (xs @ [x]) \<in> \<nat>" by (rule sum_list_Nats)
  then obtain m :: nat where m: "sum_list (xs @ [x]) = of_nat m"
    by (auto simp add: Nats_def)
  with snoc.prems(2) have "(of_nat m :: rat) \<le> of_nat (2 ^ 53)" by simp
  then have "m \<le> 2 ^ 53" by (simp only: of_nat_le_iff)
  then have "\<bar>int m\<bar> \<le> 2 ^ 53" by simp
  from round_double_int[OF this] have "round_double (of_nat m) = of_nat m" by simp
  with m ih show ?case
    by (simp add: double_sum_snoc js_add_def)
qed

lemma double_sum_ones:
  assumes "length xs \<le> 2 ^ 53"
  shows "double_sum (map (\<lambda>r. 1) xs) = of_nat (length xs)"
proof -
  have s: "sum_list (map (\<lambda>r. 1) xs) = (of_nat (length xs) :: rat)"
    by (induction xs) simp_all
  from assms have "(of_nat (length xs) :: rat) \<le> of_nat (2 ^ 53)"
    by (simp only: of_nat_le_iff)
  then have "sum_list (map (\<lambda>r. 1) xs) \<le> (2 ^ 53 :: rat)"
    by (simp add: s)
  then have "double_sum (map (\<lambda>r. 1) xs) = sum_list (map (\<lambda>r. 1) xs)"
    by (intro double_sum_naturals) simp_all
  with s show ?thesis by simp
qed

lemma double_sum_error:
  assumes "\<forall>x\<in>set xs. 0 \<le> x" and "sum_list xs \<le> pow2 k" and "- 1022 \<le> k"
      and "length xs \<le> 2 ^ 52"
  shows "\<bar>double_sum xs - sum_list xs\<bar> \<le> of_nat (length xs) * pow2 (k - 52)"
  using assms
proof (induction xs rule: rev_induct)
  case Nil
  show ?case by (simp add: double_sum_def)
next
  case (snoc x xs)
  let ?S = "double_sum xs"
  let ?E = "sum_list xs"
  let ?u = "pow2 (k - 52)"
  from snoc.prems(1) have x: "0 \<le> x" and xs: "\<forall>y\<in>set xs. 0 \<le> y"
    by simp_all
  from xs have e0: "0 \<le> ?E" by (simp add: sum_list_nonneg)
  from snoc.prems(2) have e1: "?E + x \<le> pow2 k" by simp
  from snoc.prems(4) have len: "length xs \<le> 2 ^ 52" by simp
  from e1 x have "?E \<le> pow2 k" by simp
  with snoc.IH xs snoc.prems(3) len
  have ih: "\<bar>?S - ?E\<bar> \<le> of_nat (length xs) * ?u" by simp
  from len have "(of_nat (length xs) :: rat) \<le> of_nat (2 ^ 52)"
    by (simp only: of_nat_le_iff)
  then have "(of_nat (length xs) :: rat) \<le> pow2 52"
    by (simp add: pow2_def)
  then have "of_nat (length xs) * ?u \<le> pow2 52 * ?u"
    by (rule mult_right_mono) (simp add: less_imp_le)
  also have "pow2 52 * ?u = pow2 k"
    by (simp flip: pow2_add)
  finally have c: "of_nat (length xs) * ?u \<le> pow2 k" .
  have "pow2 1 = 2" by (simp add: pow2_def)
  with pow2_add[of k 1] have two: "pow2 (k + 1) = 2 * pow2 k" by simp
  from ih c e0 e1 x have "\<bar>?S + x\<bar> \<le> pow2 (k + 1)"
    unfolding two by linarith
  moreover from snoc.prems(3) have "- 1022 \<le> k + 1" by simp
  ultimately have "\<bar>round_double (?S + x) - (?S + x)\<bar> \<le> pow2 (k + 1 - 53)"
    by (rule round_double_error)
  then have r: "\<bar>round_double (?S + x) - (?S + x)\<bar> \<le> ?u" by simp
  have "\<bar>round_double (?S + x) - (?E + x)\<bar> \<le> ?u + of_nat (length xs) * ?u"
    using r ih by linarith
  then show ?case
    by (simp add: double_sum_snoc js_add_def algebra_simps)
qed

section \<open>Facts about the JavaScript operations\<close>


lemma set_slice: "set (slice xs a b) \<subseteq> set xs"
  by (auto simp add: slice_def Let_def dest: in_set_takeD in_set_dropD)

lemma length_map_index [simp]: "length (map_index f xs) = length xs"
  by (simp add: map_index_def)


lemma in_set_map_index: "e \<in> set (map_index f xs) \<Longrightarrow> \<exists>x\<in>set xs. \<exists>i. e = f x i"
  by (auto simp add: map_index_def dest: set_zip_leftD)







lemma set_Object_entries: "set (Object_entries m) = set m"
  by (auto simp add: Object_entries_def)












section \<open>Stats aggregator and leaderboard builder: properties\<close>

text \<open>The keys of \<^verbatim>\<open>userStats\<close> are distinct, and so are the users of a leaderboard.\<close>

lemma keys_add_progress:
  "map fst (add_progress m p) =
     (if dp_tg_id p \<in> fst ` set m then map fst m else map fst m @ [dp_tg_id p])"
  by (auto simp add: add_progress_def Let_def map_of_eq_None_iff case_prod_beta comp_def
        intro!: map_idI)

lemma distinct_add_progress:
  "distinct (map fst m) \<Longrightarrow> distinct (map fst (add_progress m p))"
  by (auto simp add: keys_add_progress)

lemma distinct_userStats:
  "distinct (map fst m) \<Longrightarrow> distinct (map fst (foldl add_progress m ps))"
  by (induction ps arbitrary: m) (simp_all add: distinct_add_progress)





lemma getLeaderboardData_Inr:
  "getLeaderboardData opts clk st = Inr lb \<Longrightarrow>
     lb = map_index (add_rank (type opts)) (slice (sorted_leaderboard opts clk st) 0 (limit opts))"
  by (auto simp add: getLeaderboardData_def executeQuery_def sorted_leaderboard_def Let_def
        split: if_splits)

lemma getLeaderboardData_ok:
  "failing st = [] \<Longrightarrow>
     getLeaderboardData opts clk st =
       Inr (map_index (add_rank (type opts))
              (slice (sorted_leaderboard opts clk st) 0 (limit opts)))"
  by (simp add: getLeaderboardData_def executeQuery_def sorted_leaderboard_def Let_def)


text \<open>What the \<^verbatim>\<open>forEach\<close> has added up under a key.\<close>

lemma map_of_map_bump:
  "map_of (map (\<lambda>(k', s). if k' = uid then (k', h s) else (k', s)) xs) k =
     (if k = uid then map_option h (map_of xs k) else map_of xs k)"
  by (induction xs) auto

lemma map_of_add_progress:
  "map_of (add_progress m p) k =
     (if k = dp_tg_id p
      then Some ((case map_of m k of
                    None \<Rightarrow> \<lparr> total_points = 0, total_pages = 0, total_distance = 0, days_count = 0 \<rparr>
                  | Some s \<Rightarrow> s)
                 \<lparr> total_points := js_add (total_points (case map_of m k of
                    None \<Rightarrow> \<lparr> total_points = 0, total_pages = 0, total_distance = 0, days_count = 0 \<rparr>
                  | Some s \<Rightarrow> s)) (or0 (dp_completed_count p)),
                   total_pages := js_add (total_pages (case map_of m k of
                    None \<Rightarrow> \<lparr> total_points = 0, total_pages = 0, total_distance = 0, days_count = 0 \<rparr>
                  | Some s \<Rightarrow> s)) (or0 (dp_pages_read p)),
                   total_distance := js_add (total_distance (case map_of m k of
                    None \<Rightarrow> \<lparr> total_points = 0, total_pages = 0, total_distance = 0, days_count = 0 \<rparr>
                  | Some s \<Rightarrow> s)) (or0 (dp_distance_km p)),
                   days_count := js_add (days_count (case map_of m k of
                    None \<Rightarrow> \<lparr> total_points = 0, total_pages = 0, total_distance = 0, days_count = 0 \<rparr>
                  | Some s \<Rightarrow> s)) 1 \<rparr>)
      else map_of m k)"
  by (auto simp add: add_progress_def Let_def map_of_map_bump map_add_def split: option.splits)

lemma field_add_progress:
  assumes F0: "F \<lparr> total_points = 0, total_pages = 0, total_distance = 0, days_count = 0 \<rparr> = 0"
      and FG: "\<And>s p. F (s\<lparr> total_points := js_add (total_points s) (or0 (dp_completed_count p)),
                   total_pages := js_add (total_pages s) (or0 (dp_pages_read p)),
                   total_distance := js_add (total_distance s) (or0 (dp_distance_km p)),
                   days_count := js_add (days_count s) 1 \<rparr>) = js_add (F s) (G p)"
  shows "map_option F (map_of (add_progress m p) k) =
     (if k = dp_tg_id p
      then Some (js_add (case map_of m k of None \<Rightarrow> 0 | Some s \<Rightarrow> F s) (G p))
      else map_option F (map_of m k))"
  by (simp add: map_of_add_progress FG F0 split: option.splits)

lemma field_userStats:
  fixes F :: "user_stats \<Rightarrow> number"
  assumes F0: "F \<lparr> total_points = 0, total_pages = 0, total_distance = 0, days_count = 0 \<rparr> = 0"
      and FG: "\<And>s p. F (s\<lparr> total_points := js_add (total_points s) (or0 (dp_completed_count p)),
                   total_pages := js_add (total_pages s) (or0 (dp_pages_read p)),
                   total_distance := js_add (total_distance s) (or0 (dp_distance_km p)),
                   days_count := js_add (days_count s) 1 \<rparr>) = js_add (F s) (G p)"
  shows "map_of (foldl add_progress m ps) k = Some s \<Longrightarrow>
     F s = foldl js_add (case map_of m k of None \<Rightarrow> 0 | Some s0 \<Rightarrow> F s0)
             (map G (filter (\<lambda>r. dp_tg_id r = k) ps))"
proof (induction ps arbitrary: m)
  case Nil
  then show ?case by simp
next
  case (Cons p ps)
  from Cons.prems have "map_of (foldl add_progress (add_progress m p) ps) k = Some s"
    by simp
  from Cons.IH[OF this]
  have "F s = foldl js_add (case map_of (add_progress m p) k of None \<Rightarrow> 0 | Some s0 \<Rightarrow> F s0)
           (map G (filter (\<lambda>r. dp_tg_id r = k) ps))" .
  moreover have "(case map_of (add_progress m p) k of None \<Rightarrow> 0 | Some s0 \<Rightarrow> F s0)
      = (case map_option F (map_of (add_progress m p) k) of None \<Rightarrow> 0 | Some v \<Rightarrow> v)"
    by (simp split: option.splits)
  ultimately show ?case
    by (simp add: field_add_progress[OF F0 FG] split: option.splits)
qed

lemma join_users_entry:
  assumes "e \<in> set (join_users us m)"
  shows "\<exists>stats. (tg_id e, stats) \<in> set m
           \<and> total_points e = total_points stats \<and> total_pages e = total_pages stats
           \<and> total_distance e = total_distance stats \<and> days_count e = days_count stats"
  using assms
  by (force simp add: join_users_def List.map_filter_def set_Object_entries split: option.splits)

lemma sorted_leaderboard_sums:
  assumes "e \<in> set (sorted_leaderboard opts clk st)"
  shows "total_points e = double_sum (map (\<lambda>r. or0 (dp_completed_count r))
             (filter (\<lambda>r. dp_tg_id r = tg_id e) (select_leaderboard_data (period opts) clk st)))"
    and "total_pages e = double_sum (map (\<lambda>r. or0 (dp_pages_read r))
             (filter (\<lambda>r. dp_tg_id r = tg_id e) (select_leaderboard_data (period opts) clk st)))"
    and "total_distance e = double_sum (map (\<lambda>r. or0 (dp_distance_km r))
             (filter (\<lambda>r. dp_tg_id r = tg_id e) (select_leaderboard_data (period opts) clk st)))"
    and "days_count e = double_sum (map (\<lambda>r. 1)
             (filter (\<lambda>r. dp_tg_id r = tg_id e) (select_leaderboard_data (period opts) clk st)))"
proof -
  let ?rows = "select_leaderboard_data (period opts) clk st"
  let ?m = "foldl add_progress [] ?rows"
  from assms obtain us where "e \<in> set (join_users us ?m)"
    by (auto simp add: sorted_leaderboard_def Let_def sort_desc_def)
  from join_users_entry[OF this] obtain stats where
    st: "(tg_id e, stats) \<in> set ?m" and
    eq: "total_points e = total_points stats" "total_pages e = total_pages stats"
        "total_distance e = total_distance stats" "days_count e = days_count stats"
    by blast
  have "distinct (map fst ?m)" by (simp add: distinct_userStats)
  with st have m: "map_of ?m (tg_id e) = Some stats" by simp
  show "total_points e = double_sum (map (\<lambda>r. or0 (dp_completed_count r))
             (filter (\<lambda>r. dp_tg_id r = tg_id e) ?rows))"
    using field_userStats[where F = total_points and G = "\<lambda>r. or0 (dp_completed_count r)", OF _ _ m] eq
    by (simp add: double_sum_def)
  show "total_pages e = double_sum (map (\<lambda>r. or0 (dp_pages_read r))
             (filter (\<lambda>r. dp_tg_id r = tg_id e) ?rows))"
    using field_userStats[where F = total_pages and G = "\<lambda>r. or0 (dp_pages_read r)", OF _ _ m] eq
    by (simp add: double_sum_def)
  show "total_distance e = double_sum (map (\<lambda>r. or0 (dp_distance_km r))
             (filter (\<lambda>r. dp_tg_id r = tg_id e) ?rows))"
    using field_userStats[where F = total_distance and G = "\<lambda>r. or0 (dp_distance_km r)", OF _ _ m] eq
    by (simp add: double_sum_def)
  show "days_count e = double_sum (map (\<lambda>r. 1) (filter (\<lambda>r. dp_tg_id r = tg_id e) ?rows))"
    using field_userStats[where F = days_count and G = "\<lambda>r. 1", OF _ _ m] eq
    by (simp add: double_sum_def)
qed

lemma foldl_double_sum:
  "foldl (\<lambda>sum x. js_add sum (f x)) 0 xs = double_sum (map f xs)"
  by (simp add: double_sum_def foldl_map)

text \<open>
  Claim C6. The stats of a user are the sums over the records of that user: points are
  the sum of the completed counts, pages the sum of the pages read, distance the sum of
  the kilometres, and the days are the number of records; a missing number counts as 0.
  This holds for the all-time stats of one user and for every entry of a leaderboard
  (over the records of its period). The numbers are doubles and the sum is the sum of
  doubles, formed in the order of the records. On natural numbers, such as counts of
  tasks and of pages, it is the exact sum as long as that is at most \<open>2^53\<close>; on a column
  of distances it lies within \<open>n * 2^(k - 52)\<close> of the exact sum, for \<open>n\<close> distances whose
  sum is at most \<open>2^k\<close>.
\<close>

theorem stats_are_sums_of_records:
  "(''SELECT_USER_ALL_STATS'' \<notin> set (failing st) \<longrightarrow>
      getUserAllTimeStats st u = Inr
        \<lparr> total_points = double_sum (map (\<lambda>r. or0 (dp_completed_count r))
                           (filter (\<lambda>r. dp_tg_id r = u) (daily_progress st))),
          total_pages = double_sum (map (\<lambda>r. or0 (dp_pages_read r))
                           (filter (\<lambda>r. dp_tg_id r = u) (daily_progress st))),
          total_distance = double_sum (map (\<lambda>r. or0 (dp_distance_km r))
                           (filter (\<lambda>r. dp_tg_id r = u) (daily_progress st))),
          total_days = length (filter (\<lambda>r. dp_tg_id r = u) (daily_progress st)) \<rparr>)
   \<and> (getLeaderboardData opts clk st = Inr lb \<and> e \<in> set lb \<longrightarrow>
        total_points e = double_sum (map (\<lambda>r. or0 (dp_completed_count r))
           (filter (\<lambda>r. dp_tg_id r = tg_id e) (select_leaderboard_data (period opts) clk st)))
      \<and> total_pages e = double_sum (map (\<lambda>r. or0 (dp_pages_read r))
           (filter (\<lambda>r. dp_tg_id r = tg_id e) (select_leaderboard_data (period opts) clk st)))
      \<and> total_distance e = double_sum (map (\<lambda>r. or0 (dp_distance_km r))
           (filter (\<lambda>r. dp_tg_id r = tg_id e) (select_leaderboard_data (period opts) clk st)))
      \<and> days_count e = double_sum (map (\<lambda>r. 1)
           (filter (\<lambda>r. dp_tg_id r = tg_id e) (select_leaderboard_data (period opts) clk st))))
   \<and> or0 None = 0
   \<and> ((\<forall>x\<in>set xs. x \<in> \<nat>) \<and> sum_list xs \<le> 2 ^ 53 \<longrightarrow> double_sum xs = sum_list xs)
   \<and> (length (rows :: dp_row list) \<le> 2 ^ 53 \<longrightarrow>
         double_sum (map (\<lambda>r. 1) rows) = of_nat (length rows))
   \<and> ((\<forall>x\<in>set ys. 0 \<le> x) \<and> sum_list ys \<le> pow2 k \<and> - 1022 \<le> k \<and> length ys \<le> 2 ^ 52 \<longrightarrow>
         \<bar>double_sum ys - sum_list ys\<bar> \<le> of_nat (length ys) * pow2 (k - 52))"
proof -
  have a: "''SELECT_USER_ALL_STATS'' \<notin> set (failing st) \<longrightarrow>
      getUserAllTimeStats st u = Inr
        \<lparr> total_points = double_sum (map (\<lambda>r. or0 (dp_completed_count r))
                           (filter (\<lambda>r. dp_tg_id r = u) (daily_progress st))),
          total_pages = double_sum (map (\<lambda>r. or0 (dp_pages_read r))
                           (filter (\<lambda>r. dp_tg_id r = u) (daily_progress st))),
          total_distance = double_sum (map (\<lambda>r. or0 (dp_distance_km r))
                           (filter (\<lambda>r. dp_tg_id r = u) (daily_progress st))),
          total_days = length (filter (\<lambda>r. dp_tg_id r = u) (daily_progress st)) \<rparr>"
    by (simp add: getUserAllTimeStats_def executeQuery_def foldl_double_sum)
  have b: "total_points e = double_sum (map (\<lambda>r. or0 (dp_completed_count r))
           (filter (\<lambda>r. dp_tg_id r = tg_id e) (select_leaderboard_data (period opts) clk st)))
      \<and> total_pages e = double_sum (map (\<lambda>r. or0 (dp_pages_read r))
           (filter (\<lambda>r. dp_tg_id r = tg_id e) (select_leaderboard_data (period opts) clk st)))
      \<and> total_distance e = double_sum (map (\<lambda>r. or0 (dp_distance_km r))
           (filter (\<lambda>r. dp_tg_id r = tg_id e) (select_leaderboard_data (period opts) clk st)))
      \<and> days_count e = double_sum (map (\<lambda>r. 1)
           (filter (\<lambda>r. dp_tg_id r = tg_id e) (select_leaderboard_data (period opts) clk st)))"
    if lb: "getLeaderboardData opts clk st = Inr lb" and e: "e \<in> set lb"
  proof -
    from getLeaderboardData_Inr[OF lb] e
    obtain x i where x: "x \<in> set (slice (sorted_leaderboard opts clk st) 0 (limit opts))"
      and ex: "e = add_rank (type opts) x i"
      by (auto dest: in_set_map_index)
    from x have "x \<in> set (sorted_leaderboard opts clk st)"
      by (rule subsetD[OF set_slice])
    from sorted_leaderboard_sums[OF this] ex show ?thesis
      by (simp add: add_rank_def)
  qed
  have c: "double_sum xs = sum_list xs" if "\<forall>x\<in>set xs. x \<in> \<nat>" "sum_list xs \<le> 2 ^ 53"
    using that by (rule double_sum_naturals)
  have d: "double_sum (map (\<lambda>r. 1) rows) = of_nat (length rows)" if "length rows \<le> 2 ^ 53"
    using that by (rule double_sum_ones)
  have f: "\<bar>double_sum ys - sum_list ys\<bar> \<le> of_nat (length ys) * pow2 (k - 52)"
    if "\<forall>x\<in>set ys. 0 \<le> x" "sum_list ys \<le> pow2 k" "- 1022 \<le> k" "length ys \<le> 2 ^ 52"
    using that by (rule double_sum_error)
  from a b c d f show ?thesis by simp
qed

text \<open>
  User 1 of the store \<open>tenths\<close> has 3 and 4 points, and the distances \<^verbatim>\<open>0.1\<close> and \<^verbatim>\<open>0.2\<close>,
  whose sum is the double \<^verbatim>\<open>0.30000000000000004\<close> and not the double of \<^verbatim>\<open>0.3\<close>. User 2
  of the store \<open>reader_store\<close> has a record of 9 points and a record without a completed
  count.
\<close>

theorem stats_are_sums_of_records_witness:
  "getUserAllTimeStats tenths 1 = Inr
      \<lparr> total_points = 7, total_pages = 0,
        total_distance = 1351079888211149 / 4503599627370496, total_days = 2 \<rparr>
   \<and> round_double (3 / 10) = 5404319552844595 / 18014398509481984
   \<and> (\<exists>lb. getLeaderboardData
          \<lparr> period = ''all'', type = ''overall'', limit = 100, offset = None \<rparr> noon reader_store
          = Inr lb
        \<and> total_points (lb ! 1) = 9 \<and> total_distance (lb ! 1) = 5 / 2
        \<and> days_count (lb ! 1) = 2 \<and> tg_id (lb ! 1) = 2)
   \<and> double_sum [3, 4] = 7
   \<and> double_sum (map (\<lambda>r. 1) (daily_progress tenths)) = 2
   \<and> \<bar>double_sum [round_double (1 / 10), round_double (2 / 10)]
        - (round_double (1 / 10) + round_double (2 / 10))\<bar> \<le> 2 * pow2 (- 1 - 52)"
proof -
  let ?opts = "\<lparr> period = ''all'', type = ''overall'', limit = 100, offset = None \<rparr>"
  let ?lb = "map_index (add_rank (type ?opts))
               (slice (sorted_leaderboard ?opts noon reader_store) 0 (limit ?opts))"
  let ?ds = "[round_double (1 / 10), round_double (2 / 10)]"
  have g: "getLeaderboardData ?opts noon reader_store = Inr ?lb"
    by (rule getLeaderboardData_ok) (simp add: reader_store_def)
  have m: "?lb ! 1 \<in> set ?lb" "tg_id (?lb ! 1) = 2"
    by code_simp+
  have rows: "select_leaderboard_data (period ?opts) noon reader_store = daily_progress reader_store"
    by (simp add: select_leaderboard_data_def)
  have sums: "double_sum (map (\<lambda>r. or0 (dp_completed_count r))
                 (filter (\<lambda>r. dp_tg_id r = 2) (daily_progress reader_store))) = 9"
    "double_sum (map (\<lambda>r. or0 (dp_distance_km r))
                 (filter (\<lambda>r. dp_tg_id r = 2) (daily_progress reader_store))) = 5 / 2"
    "double_sum (map (\<lambda>r. 1)
                 (filter (\<lambda>r. dp_tg_id r = 2) (daily_progress reader_store))) = 2"
    by code_simp+
  have f: "''SELECT_USER_ALL_STATS'' \<notin> set (failing tenths)"
    by (simp add: tenths_def)
  have tsums: "double_sum (map (\<lambda>r. or0 (dp_completed_count r))
                 (filter (\<lambda>r. dp_tg_id r = 1) (daily_progress tenths))) = 7"
    "double_sum (map (\<lambda>r. or0 (dp_pages_read r))
                 (filter (\<lambda>r. dp_tg_id r = 1) (daily_progress tenths))) = 0"
    "double_sum (map (\<lambda>r. or0 (dp_distance_km r))
                 (filter (\<lambda>r. dp_tg_id r = 1) (daily_progress tenths)))
       = 1351079888211149 / 4503599627370496"
    "length (filter (\<lambda>r. dp_tg_id r = 1) (daily_progress tenths)) = 2"
    by code_simp+
  have third: "round_double (3 / 10) = 5404319552844595 / 18014398509481984"
    by code_simp
  have nat: "\<forall>x\<in>set [3, 4 :: rat]. x \<in> \<nat>" "sum_list [3, 4 :: rat] \<le> 2 ^ 53" "sum_list [3, 4 :: rat] = 7"
    by simp_all
  have len: "length (daily_progress tenths) \<le> 2 ^ 53" "length (daily_progress tenths) = 2"
    by (simp_all add: tenths_def)
  have pos: "\<forall>x\<in>set ?ds. 0 \<le> x" "sum_list ?ds \<le> pow2 (- 1)"
    by code_simp+
  have len2: "(- 1022 :: int) \<le> - 1" "length ?ds \<le> 2 ^ 52"
    "sum_list ?ds = round_double (1 / 10) + round_double (2 / 10)" "length ?ds = 2"
    by simp_all
  note t = stats_are_sums_of_records
    [of reader_store 2 ?opts noon ?lb "?lb ! 1" "[3, 4]" "daily_progress tenths" ?ds "- 1"]
  note t1 = stats_are_sums_of_records
    [of tenths 1 ?opts noon ?lb "?lb ! 1" "[3, 4]" "daily_progress tenths" ?ds "- 1"]
  from t1 f tsums have a: "getUserAllTimeStats tenths 1 = Inr
      \<lparr> total_points = 7, total_pages = 0,
        total_distance = 1351079888211149 / 4503599627370496, total_days = 2 \<rparr>"
    by simp
  from t g m rows sums
  have b: "total_points (?lb ! 1) = 9 \<and> total_distance (?lb ! 1) = 5 / 2
        \<and> days_count (?lb ! 1) = 2 \<and> tg_id (?lb ! 1) = 2"
    by simp
  from t nat have c: "double_sum [3, 4] = 7"
    by simp
  from t len have d: "double_sum (map (\<lambda>r. 1) (daily_progress tenths)) = 2"
    by simp
  from t pos len2 have e: "\<bar>double_sum ?ds - (round_double (1 / 10) + round_double (2 / 10))\<bar>
        \<le> 2 * pow2 (- 1 - 52)"
    by simp
  from a third b c d e g show ?thesis by blast
qed

text \<open>
  Claim C1. The leaderboard is meant to be ordered by the key of its type, days for the
  type consistency, with the score equal to that key. For the type consistency, which
  the controller accepts, the builder orders by points and reports points as the score:
  user 1 (score 10, one day) comes before user 2 (score 5, three days).
\<close>

theorem consistency_board_sorted_by_points:
  "validateLeaderboardParams ''all'' ''consistency'' 100 0 = Inr ()
   \<and> map_sum id (map (\<lambda>e. (tg_id e, score e, days_count e)))
        (getLeaderboardData
           \<lparr> period = ''all'', type = ''consistency'', limit = 100, offset = Some 0 \<rparr>
           noon two_users)
      = Inr [(1, 10, 1), (2, 5, 3)]"
  by code_simp

text \<open>
  Claim C2. The page of a leaderboard is meant to hold the entries at the positions from
  offset to offset + limit of the sorted set, with their ranks in that set. The builder
  never reads the offset: with limit 1 and offset 1 the controller answers with the
  entry of rank 1, not with the entry of rank 2.
\<close>

theorem offset_ignored_by_builder:
  "map_sum id (\<lambda>r. map (\<lambda>e. (p_tg_id e, p_rank e)) (lr_leaderboard r))
        (getLeaderboard ''all'' ''overall'' 2 0 noon two_users)
      = Inr [(1, 1), (2, 2)]
   \<and> map_sum id (\<lambda>r. map (\<lambda>e. (p_tg_id e, p_rank e)) (lr_leaderboard r))
        (getLeaderboard ''all'' ''overall'' 1 1 noon two_users)
      = Inr [(1, 1)]"
  by code_simp

section \<open>Position locator: properties\<close>

text \<open>
  The expression \<^verbatim>\<open>Math.round((1 - p / n) * 100)\<close> on doubles: position 17 of 40 gives
  57, where the exact value \<open>57.5\<close> would be rounded to 58.
\<close>

lemma percentile_17_of_40:
  "Math_round (js_mul (js_sub 1 (js_div 17 40)) 100) = 57
   \<and> js_mul (js_sub 1 (js_div 17 40)) 100 = 8092405580431359 / 140737488355328
   \<and> Math_round ((1 - 17 / 40) * 100) = 58"
  by code_simp



section \<open>Distribution analyzer: properties\<close>

text \<open>
  Claim C9. On an empty leaderboard the analyzer returns 0 in every numeric field and an
  empty distribution; it is a value, not an error, and no quotient is formed. The same
  holds from a store without any record.
\<close>

theorem empty_leaderboard_stats:
  "calculateLeaderboardStats [] =
     \<lparr> total_participants = 0, average_points = 0, median_points = Some 0,
       top_10_percent_threshold = Some 0, most_active_score = Some 0,
       completion_distribution = [] \<rparr>
   \<and> (daily_progress st = [] \<and> failing st = [] \<longrightarrow>
        getLeaderboardStats p clk st = Inr
          \<lparr> total_participants = 0, average_points = 0, median_points = Some 0,
            top_10_percent_threshold = Some 0, most_active_score = Some 0,
            completion_distribution = [] \<rparr>)"
  by (simp add: calculateLeaderboardStats_def getLeaderboardStats_def getLeaderboardData_ok
        sorted_leaderboard_def select_leaderboard_data_def join_users_def
        Object_entries_def List.map_filter_def sort_desc_def slice_def map_index_def
        split: option.split)

theorem empty_leaderboard_stats_witness:
  "daily_progress (two_users\<lparr> daily_progress := [] \<rparr>) = []
   \<and> failing (two_users\<lparr> daily_progress := [] \<rparr>) = []
   \<and> getLeaderboardStats ''all'' noon (two_users\<lparr> daily_progress := [] \<rparr>) = Inr
        \<lparr> total_participants = 0, average_points = 0, median_points = Some 0,
          top_10_percent_threshold = Some 0, most_active_score = Some 0,
          completion_distribution = [] \<rparr>"
  using empty_leaderboard_stats [of "two_users\<lparr> daily_progress := [] \<rparr>" "''all''" noon]
  by (simp add: two_users_def)




text \<open>
  The average on doubles: for 23 scores of 1 and 17 scores of 0 the mean is the double of
  \<^verbatim>\<open>0.575\<close>, its product with 100 is the double \<^verbatim>\<open>57.49999999999999\<close>, and the average
  is the double of \<^verbatim>\<open>0.57\<close>.
\<close>

lemma average_23_of_40:
  "js_div (Math_round (js_mul (js_div 23 40) 100)) 100 = round_double (57 / 100)
   \<and> js_mul (js_div 23 40) 100 = 8092405580431359 / 140737488355328
   \<and> Math_round (23 / 40 * 100) / 100 = 58 / 100"
  by code_simp



section \<open>Achievement engine: properties\<close>

lemma categories [simp]:
  "a_category point_master = ''points''" "a_category point_collector = ''points''"
  "a_category library_master = ''reading''" "a_category book_lover = ''reading''"
  "a_category bookworm = ''reading''"
  "a_category ultra_runner = ''fitness''" "a_category marathon_hero = ''fitness''"
  "a_category runner = ''fitness''"
  "a_category centurion = ''consistency''" "a_category month_master = ''consistency''"
  "a_category week_warrior = ''consistency''"
  by (simp_all add: point_master_def point_collector_def
       library_master_def book_lover_def bookworm_def ultra_runner_def marathon_hero_def
       runner_def centurion_def month_master_def week_warrior_def)

lemma tiered_points:
  "filter (\<lambda>a. a_category a = ''points'') (calculateUserAchievements s) =
     (if total_points s \<ge> 500 then [point_master]
      else if total_points s \<ge> 100 then [point_collector] else [])"
  by (simp add: calculateUserAchievements_def)

lemma tiered_reading:
  "filter (\<lambda>a. a_category a = ''reading'') (calculateUserAchievements s) =
     (if total_pages s \<ge> 1000 then [library_master]
      else if total_pages s \<ge> 500 then [book_lover]
      else if total_pages s \<ge> 100 then [bookworm] else [])"
  by (simp add: calculateUserAchievements_def)

lemma tiered_fitness:
  "filter (\<lambda>a. a_category a = ''fitness'') (calculateUserAchievements s) =
     (if total_distance s \<ge> 500 then [ultra_runner]
      else if total_distance s \<ge> 200 then [marathon_hero]
      else if total_distance s \<ge> 50 then [runner] else [])"
  by (simp add: calculateUserAchievements_def)

lemma tiered_consistency:
  "filter (\<lambda>a. a_category a = ''consistency'') (calculateUserAchievements s) =
     (if days_count s \<ge> 100 then [centurion]
      else if days_count s \<ge> 30 then [month_master]
      else if days_count s \<ge> 7 then [week_warrior] else [])"
  by (simp add: calculateUserAchievements_def)

lemma tiered_other:
  assumes "c \<noteq> ''points''" "c \<noteq> ''reading''" "c \<noteq> ''fitness''" "c \<noteq> ''consistency''"
  shows "filter (\<lambda>a. a_category a = c) (calculateUserAchievements s) = []"
  using assms by (auto simp add: calculateUserAchievements_def)

lemma tiered_at_most_one:
  "length (filter (\<lambda>a. a_category a = c) (calculateUserAchievements s)) \<le> 1"
proof -
  consider "c = ''points''" | "c = ''reading''" | "c = ''fitness''" | "c = ''consistency''"
    | "c \<noteq> ''points''" "c \<noteq> ''reading''" "c \<noteq> ''fitness''" "c \<noteq> ''consistency''"
    by blast
  then show ?thesis
  proof cases
    case 1 then show ?thesis by (simp only: tiered_points) simp
  next
    case 2 then show ?thesis by (simp only: tiered_reading) simp
  next
    case 3 then show ?thesis by (simp only: tiered_fitness) simp
  next
    case 4 then show ?thesis by (simp only: tiered_consistency) simp
  next
    case 5 show ?thesis using tiered_other[OF 5] by simp
  qed
qed

text \<open>
  Claim C4. In tiered mode every category holds at most one badge, and that badge is the
  one of the highest threshold that the statistics reach: points 500 then 100, pages 1000,
  500, then 100, kilometres 500, 200, then 50, days 100, 30, then 7.
\<close>

theorem tiered_single_highest_badge:
  "filter (\<lambda>a. a_category a = ''points'') (calculateUserAchievements s) =
     (if total_points s \<ge> 500 then [point_master]
      else if total_points s \<ge> 100 then [point_collector] else [])
   \<and> filter (\<lambda>a. a_category a = ''reading'') (calculateUserAchievements s) =
     (if total_pages s \<ge> 1000 then [library_master]
      else if total_pages s \<ge> 500 then [book_lover]
      else if total_pages s \<ge> 100 then [bookworm] else [])
   \<and> filter (\<lambda>a. a_category a = ''fitness'') (calculateUserAchievements s) =
     (if total_distance s \<ge> 500 then [ultra_runner]
      else if total_distance s \<ge> 200 then [marathon_hero]
      else if total_distance s \<ge> 50 then [runner] else [])
   \<and> filter (\<lambda>a. a_category a = ''consistency'') (calculateUserAchievements s) =
     (if days_count s \<ge> 100 then [centurion]
      else if days_count s \<ge> 30 then [month_master]
      else if days_count s \<ge> 7 then [week_warrior] else [])
   \<and> (\<forall>c. length (filter (\<lambda>a. a_category a = c) (calculateUserAchievements s)) \<le> 1)"
  using tiered_points tiered_reading tiered_fitness tiered_consistency tiered_at_most_one
  by blast

text \<open>With 600 points and 1000 pages: the epic points badge and the legendary reading badge.\<close>

theorem tiered_single_highest_badge_witness:
  "filter (\<lambda>a. a_category a = ''points'')
     (calculateUserAchievements
        \<lparr> total_points = 600, total_pages = 1000, total_distance = 0, days_count = 0 \<rparr>)
     = [point_master]
   \<and> filter (\<lambda>a. a_category a = ''reading'')
     (calculateUserAchievements
        \<lparr> total_points = 600, total_pages = 1000, total_distance = 0, days_count = 0 \<rparr>)
     = [library_master]
   \<and> a_rarity point_master = ''epic'' \<and> a_rarity library_master = ''legendary''"
  using tiered_single_highest_badge
    [of "\<lparr> total_points = 600, total_pages = 1000, total_distance = 0, days_count = 0 \<rparr>"]
  by (simp add: point_master_def library_master_def)

section \<open>Achievement leaderboard: properties\<close>

lemma tg_id_with_achievements [simp]: "tg_id (with_achievements e) = tg_id e"
  by (simp add: with_achievements_def Let_def)




section \<open>Submission path: properties\<close>

text \<open>
  Claim C5. The check after a submission yields at most one achievement. When the stats
  can be read it looks at the number of days of the user first (one day, then seven days)
  and at the completed count of the saved record only after these; when the stats cannot
  be read it yields none, and a submission that got as far as the save still answers with
  its response.
\<close>

theorem unlock_check_priority_and_degrade:
  "(''SELECT_USER_ALL_STATS'' \<notin> set (failing st) \<longrightarrow>
      checkForAchievements st u progress =
        (let days = length (filter (\<lambda>row. dp_tg_id row = u) (daily_progress st)) in
         if days = 1 then Some first_day
         else if days = 7 then Some week_warrior_unlocked
         else if dp_completed_count progress = Some 10 then Some perfect_day
         else None))
   \<and> (''SELECT_USER_ALL_STATS'' \<in> set (failing st) \<longrightarrow>
        checkForAchievements st u progress = None)
   \<and> (0 < b_tg_id body
        \<and> getUserByTelegramId st (b_tg_id body) = Inr (Some user)
        \<and> u_status user = ''approved''
        \<and> validateSubmissionData (b_tasks body) (b_task_inputs body)
             (b_pages_read body) (b_distance_km body) = Inr ()
        \<and> ''UPSERT_DAILY_PROGRESS'' \<notin> set (failing st)
        \<and> ''SELECT_USER_ALL_STATS'' \<in> set (failing st)
      \<longrightarrow> (\<exists>resp st1. submitDailyProgress body clk st = Inr (resp, st1)
             \<and> achievement_unlocked resp = None))"
  by (simp add: submitDailyProgress_def Let_def service_submitDailyProgress_def
        executeQuery_def checkForAchievements_def getUserAllTimeStats_def
        TOTAL_DAILY_TASKS_def)

text \<open>
  User 1 has a single day with ten points: the first rule answers, the third is not
  reached. With the stats query down the check answers nothing and the submission of
  user 3 is still answered.
\<close>

theorem unlock_check_priority_and_degrade_witness:
  "checkForAchievements two_users 1 (day 1 ''2024-01-01'' 10) = Some first_day
   \<and> checkForAchievements stats_down 3 (day 3 ''2024-01-03'' 10) = None
   \<and> (\<exists>resp st1. submitDailyProgress ten_body noon stats_down = Inr (resp, st1)
         \<and> achievement_unlocked resp = None)"
proof -
  have a: "''SELECT_USER_ALL_STATS'' \<notin> set (failing two_users)"
    by (simp add: two_users_def)
  have days: "length (filter (\<lambda>row. dp_tg_id row = 1) (daily_progress two_users)) = 1"
    by (simp add: two_users_def day_def)
  have b: "''SELECT_USER_ALL_STATS'' \<in> set (failing stats_down)"
    by (simp add: stats_down_def)
  have c: "0 < b_tg_id ten_body
        \<and> getUserByTelegramId stats_down (b_tg_id ten_body) = Inr (Some (member 3 ''C''))
        \<and> u_status (member 3 ''C'') = ''approved''
        \<and> validateSubmissionData (b_tasks ten_body) (b_task_inputs ten_body)
             (b_pages_read ten_body) (b_distance_km ten_body) = Inr ()
        \<and> ''UPSERT_DAILY_PROGRESS'' \<notin> set (failing stats_down)"
    by code_simp
  note t1 = unlock_check_priority_and_degrade
    [of two_users 1 "day 1 ''2024-01-01'' 10" ten_body "member 3 ''C''" noon]
  note t2 = unlock_check_priority_and_degrade
    [of stats_down 3 "day 3 ''2024-01-03'' 10" ten_body "member 3 ''C''" noon]
  from t1 a days
  have "checkForAchievements two_users 1 (day 1 ''2024-01-01'' 10) = Some first_day"
    by simp
  moreover from t2 b
  have "checkForAchievements stats_down 3 (day 3 ''2024-01-03'' 10) = None"
    by simp
  moreover from t2 b c
  have "\<exists>resp st1. submitDailyProgress ten_body noon stats_down = Inr (resp, st1)
         \<and> achievement_unlocked resp = None"
    by blast
  ultimately show ?thesis by blast
qed

text \<open>
  Claim C3. The completed count of the saved record is computed by the controller from
  the task object of the body, and is meant to lie between 0 and 10. A body whose task
  object has eleven keys set to true passes \<open>validateSubmissionData\<close>, and the record
  is saved with a completed count of 11.
\<close>

theorem completed_count_eleven:
  "validateSubmissionData (b_tasks eleven_body) (b_task_inputs eleven_body)
      (b_pages_read eleven_body) (b_distance_km eleven_body) = Inr ()
   \<and> map_sum id (\<lambda>(resp, st1). (completed (today resp),
          map dp_completed_count (filter (\<lambda>row. dp_tg_id row = 3) (daily_progress st1))))
        (submitDailyProgress eleven_body noon three_users)
      = Inr (11, [Some 11])"
  by code_simp

end
